theory Spec2Isabelle
  imports Complex_Main
begin

section \<open>GLSL values and built-in functions\<close>

text \<open>
  The fragment shaders of the plugin compute with GLSL \<^verbatim>\<open>float\<close>s. They are modelled
  by \<^typ>\<open>real\<close>: rounding of the GPU arithmetic is not part of the model. A \<^verbatim>\<open>vec2\<close> is a
  pair, a \<^verbatim>\<open>vec4\<close> a value with the four components x, y, z, w (alias r, g, b, a), and a
  \<^verbatim>\<open>sampler2D\<close> is the function that \<^verbatim>\<open>texture2D\<close> evaluates at a texture coordinate.
\<close>

type_synonym vec2 = "real \<times> real"

datatype vec4 = Vec4 (vx: real) (vy: real) (vz: real) (vw: real)

type_synonym vec3 = "real \<times> real \<times> real"

type_synonym sampler2D = "vec2 \<Rightarrow> vec4"

definition texture2D :: "sampler2D \<Rightarrow> vec2 \<Rightarrow> vec4" where
  "texture2D s c = s c"

definition xyz :: "vec4 \<Rightarrow> vec3" where
  "xyz c = (vx c, vy c, vz c)"

definition floorf :: "real \<Rightarrow> real" where
  "floorf a = of_int \<lfloor>a\<rfloor>"

definition clampf :: "real \<Rightarrow> real \<Rightarrow> real \<Rightarrow> real" where
  "clampf a lo hi = min (max a lo) hi"

definition stepf :: "real \<Rightarrow> real \<Rightarrow> real" where
  "stepf edge a = (if a < edge then 0 else 1)"

definition modf :: "real \<Rightarrow> real \<Rightarrow> real" where
  "modf a b = a - b * floorf (a / b)"

text \<open>The luminance expression \<^verbatim>\<open>.299*d.x+.587*d.y+.114*d.z\<close> used by two shaders.\<close>

definition luminance :: "vec4 \<Rightarrow> real" where
  "luminance d = 0.299 * vx d + 0.587 * vy d + 0.114 * vz d"

section \<open>Brightness split shader (brightnessSplit.frag)\<close>

definition EPSILON :: real where
  "EPSILON = 0.01"

definition brightnessSplitShader ::
  "sampler2D \<Rightarrow> sampler2D \<Rightarrow> vec2 \<Rightarrow> int \<Rightarrow> int \<Rightarrow> real \<Rightarrow> vec2 \<Rightarrow> vec4" where
  "brightnessSplitShader u_inputImage u_brightnessTexture u_inputImageSize u_gridCols u_gridRows
       u_pixelRatio gl_FragCoord =
    (let logicalFragCoord = (floorf (fst gl_FragCoord / u_pixelRatio),
                             floorf (snd gl_FragCoord / u_pixelRatio));
         cellWidth = fst u_inputImageSize / of_int u_gridCols;
         cellHeight = snd u_inputImageSize / of_int u_gridRows;
         imageTexCoord = (fst logicalFragCoord / fst u_inputImageSize,
                          snd logicalFragCoord / snd u_inputImageSize);
         originalColor = texture2D u_inputImage imageTexCoord
     in if vw originalColor < EPSILON then Vec4 0 0 0 0
        else
          let gridX = clampf (floorf (fst logicalFragCoord / cellWidth)) 0 (of_int (u_gridCols - 1));
              gridY = clampf (floorf (snd logicalFragCoord / cellHeight)) 0 (of_int (u_gridRows - 1));
              brightnessTexCoord = ((gridX + 0.5) / of_int u_gridCols,
                                    (gridY + 0.5) / of_int u_gridRows);
              averageBrightness = vx (texture2D u_brightnessTexture brightnessTexCoord);
              fragmentBrightness = luminance originalColor;
              brightnessDifference = fragmentBrightness - averageBrightness;
              finalColorValue = (if brightnessDifference < - EPSILON then 0 else 1)
          in Vec4 finalColorValue finalColorValue finalColorValue 1)"

text \<open>The pixel of the capture buffer and the cell average that the shader reads at a fragment.\<close>

definition splitPixel :: "sampler2D \<Rightarrow> vec2 \<Rightarrow> real \<Rightarrow> vec2 \<Rightarrow> vec4" where
  "splitPixel u_inputImage u_inputImageSize u_pixelRatio gl_FragCoord =
     texture2D u_inputImage
       (floorf (fst gl_FragCoord / u_pixelRatio) / fst u_inputImageSize,
        floorf (snd gl_FragCoord / u_pixelRatio) / snd u_inputImageSize)"

definition splitCellAverage :: "sampler2D \<Rightarrow> vec2 \<Rightarrow> int \<Rightarrow> int \<Rightarrow> real \<Rightarrow> vec2 \<Rightarrow> real" where
  "splitCellAverage u_brightnessTexture u_inputImageSize u_gridCols u_gridRows u_pixelRatio gl_FragCoord =
     vx (texture2D u_brightnessTexture
       ((clampf (floorf (floorf (fst gl_FragCoord / u_pixelRatio)
                          / (fst u_inputImageSize / of_int u_gridCols))) 0 (of_int (u_gridCols - 1)) + 0.5)
          / of_int u_gridCols,
        (clampf (floorf (floorf (snd gl_FragCoord / u_pixelRatio)
                          / (snd u_inputImageSize / of_int u_gridRows))) 0 (of_int (u_gridRows - 1)) + 0.5)
          / of_int u_gridRows))"

section \<open>Sub-sample grids\<close>

text \<open>
  The nested iteration \<^verbatim>\<open>for(int s=0;s<u;s++)for(int g=0;g<f;g++)\<close> visits the pairs of
  \<^term>\<open>List.product [0..<u] [0..<f]\<close> in exactly this order; a loop that accumulates is a
  \<^const>\<open>fold\<close> over that list.
\<close>

definition subSamples :: "nat \<Rightarrow> nat \<Rightarrow> (nat \<times> nat) list" where
  "subSamples u f = List.product [0..<u] [0..<f]"

text \<open>
  The clamped sample coordinate
  \<^verbatim>\<open>clamp((v+(vec2(float(s),float(g))+.5)*(e/vec2(float(u),float(f))))/u_inputImageSize,0.,1.)\<close>
  of the brightness sample shader and of the colour sample shader.
\<close>

definition sampleCoord :: "vec2 \<Rightarrow> vec2 \<Rightarrow> vec2 \<Rightarrow> nat \<Rightarrow> nat \<Rightarrow> nat \<times> nat \<Rightarrow> vec2" where
  "sampleCoord v e u_inputImageSize u f sg =
     (clampf ((fst v + (real (fst sg) + 0.5) * (fst e / real u)) / fst u_inputImageSize) 0 1,
      clampf ((snd v + (real (snd sg) + 0.5) * (snd e / real f)) / snd u_inputImageSize) 0 1)"

section \<open>Brightness sample shader (generateBrightnessSampleShader)\<close>

text \<open>
  The generator \<^verbatim>\<open>c=(t,i)=>...\<close> bakes its two arguments into the shader text as the constants
  \<^verbatim>\<open>u\<close> and \<^verbatim>\<open>f\<close>; the model takes them as the first two arguments.
\<close>

definition cellPixelSize :: "vec2 \<Rightarrow> int \<Rightarrow> int \<Rightarrow> vec2" where
  "cellPixelSize u_inputImageSize u_gridCols u_gridRows =
     (fst u_inputImageSize / of_int u_gridCols, snd u_inputImageSize / of_int u_gridRows)"

definition cellPixelOrigin :: "vec2 \<Rightarrow> int \<Rightarrow> int \<Rightarrow> vec2 \<Rightarrow> vec2" where
  "cellPixelOrigin u_inputImageSize u_gridCols u_gridRows gl_FragCoord =
     (floorf (fst gl_FragCoord) * fst (cellPixelSize u_inputImageSize u_gridCols u_gridRows),
      floorf (snd gl_FragCoord) * snd (cellPixelSize u_inputImageSize u_gridCols u_gridRows))"

definition brightnessSampleShader ::
  "nat \<Rightarrow> nat \<Rightarrow> sampler2D \<Rightarrow> vec2 \<Rightarrow> int \<Rightarrow> int \<Rightarrow> vec2 \<Rightarrow> vec4" where
  "brightnessSampleShader u f u_inputImage u_inputImageSize u_gridCols u_gridRows gl_FragCoord =
    (let e = cellPixelSize u_inputImageSize u_gridCols u_gridRows;
         v = cellPixelOrigin u_inputImageSize u_gridCols u_gridRows gl_FragCoord;
         t = real (u * f);
         i = fold (\<lambda>sg i.
                let m = sampleCoord v e u_inputImageSize u f sg;
                    d = texture2D u_inputImage m;
                    t = luminance d
                in i + t) (subSamples u f) 0;
         i = i / t
     in Vec4 i i i 1)"

section \<open>Colour sample shader (generateColorSampleShader)\<close>

text \<open>
  The arrays \<^verbatim>\<open>vec4 c[e]\<close> and \<^verbatim>\<open>float b[e]\<close> are always indexed together; bucket \<open>i\<close> is the
  pair \<open>(c[i], b[i])\<close> and the two arrays are one list of \<open>e\<close> buckets.
\<close>

type_synonym buckets = "(vec4 \<times> real) list"

text \<open>\<^verbatim>\<open>for(int i=0;i<e;i++)if(m.xyz==c[i].xyz){b[i]+=1.;z=true;break;}\<close>\<close>

fun bumpBucket :: "vec4 \<Rightarrow> buckets \<Rightarrow> buckets \<times> bool" where
  "bumpBucket m [] = ([], False)"
| "bumpBucket m ((c, b) # cbs) =
     (if xyz m = xyz c then ((c, b + 1) # cbs, True)
      else (let (cbs', z) = bumpBucket m cbs in ((c, b) # cbs', z)))"

text \<open>\<^verbatim>\<open>for(int i=0;i<e;i++)if(b[i]==0.){c[i]=m;b[i]=1.;break;}\<close>\<close>

fun insertBucket :: "vec4 \<Rightarrow> buckets \<Rightarrow> buckets" where
  "insertBucket m [] = []"
| "insertBucket m ((c, b) # cbs) =
     (if b = 0 then (m, 1) # cbs else (c, b) # insertBucket m cbs)"

definition tallyColor :: "vec4 \<Rightarrow> buckets \<Rightarrow> buckets" where
  "tallyColor m cbs =
     (let (cbs', z) = bumpBucket m cbs in if \<not> z then insertBucket m cbs' else cbs')"

text \<open>\<^verbatim>\<open>float z=0.;vec4 m=vec4(0);for(int i=0;i<e;i++){float u=b[i];vec4 k=c[i];if(u>z)z=u,m=k;}\<close>\<close>

definition pickBucket :: "buckets \<Rightarrow> real \<times> vec4" where
  "pickBucket cbs =
     fold (\<lambda>(k, u) (z, m). if u > z then (u, k) else (z, m)) cbs (0, Vec4 0 0 0 0)"

text \<open>The test \<^verbatim>\<open>if(u_colorRank==1&&r>.5)z=true;else if(u_colorRank==2&&r<=.5)z=true;\<close>\<close>

definition rankMatches :: "int \<Rightarrow> vec4 \<Rightarrow> bool" where
  "rankMatches u_colorRank d =
     (let r = stepf 0.5 (vx d)
      in if u_colorRank = 1 \<and> r > 0.5 then True
         else if u_colorRank = 2 \<and> r \<le> 0.5 then True
         else False)"

definition cellCenter :: "vec2 \<Rightarrow> int \<Rightarrow> int \<Rightarrow> vec2 \<Rightarrow> vec2" where
  "cellCenter u_inputImageSize u_gridCols u_gridRows gl_FragCoord =
     (let t = cellPixelSize u_inputImageSize u_gridCols u_gridRows;
          i = cellPixelOrigin u_inputImageSize u_gridCols u_gridRows gl_FragCoord
      in ((fst i + fst t * 0.5) / fst u_inputImageSize, (snd i + snd t * 0.5) / snd u_inputImageSize))"

definition colorSampleShader ::
  "nat \<Rightarrow> nat \<Rightarrow> nat \<Rightarrow> sampler2D \<Rightarrow> sampler2D \<Rightarrow> vec2 \<Rightarrow> int \<Rightarrow> int \<Rightarrow> int \<Rightarrow> vec2 \<Rightarrow> vec4" where
  "colorSampleShader e u f u_inputImage u_inputImageBW u_inputImageSize u_gridCols u_gridRows
       u_colorRank gl_FragCoord =
    (let t = cellPixelSize u_inputImageSize u_gridCols u_gridRows;
         i = cellPixelOrigin u_inputImageSize u_gridCols u_gridRows gl_FragCoord;
         k = cellCenter u_inputImageSize u_gridCols u_gridRows gl_FragCoord;
         v = texture2D u_inputImage k;
         cb = fold (\<lambda>vk cb.
                let s = sampleCoord i t u_inputImageSize u f vk;
                    m = texture2D u_inputImage s;
                    d = texture2D u_inputImageBW s
                in if \<not> rankMatches u_colorRank d then cb else tallyColor m cb)
              (subSamples u f) (replicate e (Vec4 0 0 0 0, 0));
         (z, m) = pickBucket cb;
         m = (if u_colorRank = 2 \<and> z = 0 then v else m)
     in Vec4 (vx m) (vy m) (vz m) 1)"

section \<open>Character selection shader (generateCharacterSelectionShader)\<close>

text \<open>
  The generator \<^verbatim>\<open>a=t=>...\<close> bakes the font size \<open>t\<close> into the loop bounds. A cell is
  sub-sampled on a \<open>t\<close> by \<open>t\<close> grid: sub-sample \<open>(u, f)\<close> lies at the relative position
  \<^verbatim>\<open>r=vec2(float(f)+.5,float(u)+.5)*k\<close> with \<^verbatim>\<open>k=1./float(t)\<close>.
\<close>

definition subPos :: "nat \<Rightarrow> nat \<times> nat \<Rightarrow> vec2" where
  "subPos t uf = ((real (snd uf) + 0.5) * (1 / real t), (real (fst uf) + 0.5) * (1 / real t))"

text \<open>\<^verbatim>\<open>e+r*v\<close> (component-wise), the coordinate at which a texture is read.\<close>

definition offsetCoord :: "vec2 \<Rightarrow> vec2 \<Rightarrow> vec2 \<Rightarrow> vec2" where
  "offsetCoord e r v = (fst e + fst r * fst v, snd e + snd r * snd v)"

text \<open>The cell's origin \<open>e\<close> and extent \<open>v\<close> in the texture space of the sketch texture.\<close>

definition cellOrigin :: "vec2 \<Rightarrow> vec2 \<Rightarrow> vec2 \<Rightarrow> vec2" where
  "cellOrigin u_gridPixelDimensions u_gridCellDimensions gl_FragCoord =
     (floorf (floorf (fst gl_FragCoord)) * (fst u_gridPixelDimensions / fst u_gridCellDimensions)
        / fst u_gridPixelDimensions,
      floorf (floorf (snd gl_FragCoord)) * (snd u_gridPixelDimensions / snd u_gridCellDimensions)
        / snd u_gridPixelDimensions)"

definition cellExtent :: "vec2 \<Rightarrow> vec2 \<Rightarrow> vec2 \<Rightarrow> vec2" where
  "cellExtent u_gridPixelDimensions u_gridCellDimensions gl_FragCoord =
     ((floorf (floorf (fst gl_FragCoord)) + 1) * (fst u_gridPixelDimensions / fst u_gridCellDimensions)
        / fst u_gridPixelDimensions
        - fst (cellOrigin u_gridPixelDimensions u_gridCellDimensions gl_FragCoord),
      (floorf (floorf (snd gl_FragCoord)) + 1) * (snd u_gridPixelDimensions / snd u_gridCellDimensions)
        / snd u_gridPixelDimensions
        - snd (cellOrigin u_gridPixelDimensions u_gridCellDimensions gl_FragCoord))"

text \<open>
  The transparency test. Both levels leave by \<^verbatim>\<open>if(!s)break;\<close> once \<open>s\<close> is false; a body that
  is skipped when \<open>s\<close> is false has the same effect.
\<close>

definition cellTransparent :: "nat \<Rightarrow> sampler2D \<Rightarrow> vec2 \<Rightarrow> vec2 \<Rightarrow> bool" where
  "cellTransparent t u_sketchTexture e v =
     fold (\<lambda>u s. if \<not> s then s
            else fold (\<lambda>f s. if \<not> s then s
                   else let i = texture2D u_sketchTexture (offsetCoord e (subPos t (u, f)) v)
                        in if vw i > 0 then False else s) [0..<t] s)
       [0..<t] True"

text \<open>The glyph index \<open>m\<close> that palette entry \<open>u\<close> holds in its colour channels.\<close>

definition paletteGlyph :: "sampler2D \<Rightarrow> vec2 \<Rightarrow> nat \<Rightarrow> real" where
  "paletteGlyph u_charPaletteTexture u_charPaletteSize u =
     (let s = ((real u + 0.5) / fst u_charPaletteSize, 0.5 / snd u_charPaletteSize);
          r = texture2D u_charPaletteTexture s
      in vx r * 255 + vy r * 255 * 256 + vz r * 255 * 65536)"

text \<open>
  The sum of squared differences that the inner iteration accumulates in \<open>y\<close> for the glyph with
  index \<open>m\<close>, and the error that the palette loop compares: the sum after \<^verbatim>\<open>y/=f\<close>, with
  \<^verbatim>\<open>f=u*u\<close> and \<^verbatim>\<open>u=float(t)\<close>.
\<close>

definition glyphSSD ::
  "nat \<Rightarrow> sampler2D \<Rightarrow> real \<Rightarrow> real \<Rightarrow> sampler2D \<Rightarrow> vec2 \<Rightarrow> vec2 \<Rightarrow> real \<Rightarrow> real" where
  "glyphSSD t u_characterTexture u_charsetCols u_charsetRows u_sketchTexture e v m =
     (let y = floorf (m / u_charsetCols);
          s = ((m - u_charsetCols * y) / u_charsetCols, y / u_charsetRows);
          C = (1 / u_charsetCols, 1 / u_charsetRows)
      in fold (\<lambda>uf y.
                let r = subPos t uf;
                    m = vx (texture2D u_sketchTexture (offsetCoord e r v))
                        - vx (texture2D u_characterTexture (offsetCoord s r C))
                in y + m * m) (subSamples t t) 0)"

definition glyphError ::
  "nat \<Rightarrow> sampler2D \<Rightarrow> real \<Rightarrow> real \<Rightarrow> sampler2D \<Rightarrow> vec2 \<Rightarrow> vec2 \<Rightarrow> real \<Rightarrow> real" where
  "glyphError t u_characterTexture u_charsetCols u_charsetRows u_sketchTexture e v m =
     glyphSSD t u_characterTexture u_charsetCols u_charsetRows u_sketchTexture e v m
       / (real t * real t)"

text \<open>
  The palette loop \<^verbatim>\<open>for(int u=0;u<1024;u++){if(float(u)>=t)break; ... if(y<i)i=y,g=m;}\<close>
  with \<open>t\<close> the palette size, \<open>glyph u\<close> the glyph index of entry \<open>u\<close> and \<open>err u\<close> its error.
\<close>

function paletteScan ::
  "real \<Rightarrow> (nat \<Rightarrow> real) \<Rightarrow> (nat \<Rightarrow> real) \<Rightarrow> nat \<Rightarrow> real \<times> real \<Rightarrow> real \<times> real" where
  "paletteScan t glyph err u ig =
     (if u < 1024 then
        (if real u \<ge> t then ig
         else paletteScan t glyph err (Suc u)
                (if err u < fst ig then (err u, glyph u) else ig))
      else ig)"
  by pat_completeness auto
termination
  by (relation "measure (\<lambda>(t, glyph, err, u, ig). 1024 - u)") auto

declare paletteScan.simps [simp del]

definition encodeGlyph :: "real \<Rightarrow> vec4" where
  "encodeGlyph g = (let i = modf g 256; g = floorf (g / 256) in Vec4 (i / 255) (g / 255) 0 1)"

definition characterSelectionShader ::
  "nat \<Rightarrow> sampler2D \<Rightarrow> real \<Rightarrow> real \<Rightarrow> sampler2D \<Rightarrow> vec2 \<Rightarrow> vec2 \<Rightarrow> sampler2D \<Rightarrow> vec2 \<Rightarrow> vec2
     \<Rightarrow> vec4" where
  "characterSelectionShader t u_characterTexture u_charsetCols u_charsetRows u_sketchTexture
       u_gridPixelDimensions u_gridCellDimensions u_charPaletteTexture u_charPaletteSize gl_FragCoord =
    (let e = cellOrigin u_gridPixelDimensions u_gridCellDimensions gl_FragCoord;
         v = cellExtent u_gridPixelDimensions u_gridCellDimensions gl_FragCoord;
         s = cellTransparent t u_sketchTexture e v
     in if s then Vec4 0 0 0 0
        else
          let (i, g) = paletteScan (fst u_charPaletteSize)
                 (paletteGlyph u_charPaletteTexture u_charPaletteSize)
                 (\<lambda>u. glyphError t u_characterTexture u_charsetCols u_charsetRows u_sketchTexture e v
                         (paletteGlyph u_charPaletteTexture u_charPaletteSize u))
                 0 (100000000000000000000, 0)
          in encodeGlyph g)"

section \<open>JavaScript values and objects\<close>

text \<open>
  An object is the list of its own enumerable properties in insertion order, which is the
  order \<^verbatim>\<open>Object.keys\<close> reports. Numbers are reals (no NaN); a class or function is
  identified by a number.
\<close>

datatype js_value =
    JSUndefined
  | JSNull
  | JSBool bool
  | JSNumber real
  | JSString string
  | JSFunction nat
  | JSObject "(string \<times> js_value) list"

type_synonym js_object = "(string \<times> js_value) list"

datatype js_error = Error string

fun truthy :: "js_value \<Rightarrow> bool" where
  "truthy JSUndefined = False"
| "truthy JSNull = False"
| "truthy (JSBool b) = b"
| "truthy (JSNumber n) = (n \<noteq> 0)"
| "truthy (JSString s) = (s \<noteq> [])"
| "truthy (JSFunction c) = True"
| "truthy (JSObject ps) = True"

fun typeof :: "js_value \<Rightarrow> string" where
  "typeof JSUndefined = ''undefined''"
| "typeof JSNull = ''object''"
| "typeof (JSBool b) = ''boolean''"
| "typeof (JSNumber n) = ''number''"
| "typeof (JSString s) = ''string''"
| "typeof (JSFunction c) = ''function''"
| "typeof (JSObject ps) = ''object''"

text \<open>Reading a property of an object; a missing property is \<^verbatim>\<open>undefined\<close>.\<close>

definition objectGet :: "js_object \<Rightarrow> string \<Rightarrow> js_value" where
  "objectGet ps k = (case map_of ps k of None \<Rightarrow> JSUndefined | Some v \<Rightarrow> v)"

text \<open>
  Reading a property of a truthy value never throws; the primitives and functions of this
  model carry no properties of their own.
\<close>

definition getProp :: "js_value \<Rightarrow> string \<Rightarrow> js_value" where
  "getProp v k = (case v of JSObject ps \<Rightarrow> objectGet ps k | _ \<Rightarrow> JSUndefined)"

text \<open>Writing a property: an existing key keeps its position, a new key is appended.\<close>

fun setProp :: "string \<Rightarrow> js_value \<Rightarrow> js_object \<Rightarrow> js_object" where
  "setProp k v [] = [(k, v)]"
| "setProp k v ((k', v') # ps) = (if k' = k then (k, v) # ps else (k', v') # setProp k v ps)"

text \<open>The object literal \<^verbatim>\<open>{ ...a, ...b }\<close>: the properties of each source are written in turn
  to a fresh object.\<close>

definition objectSpread :: "js_object list \<Rightarrow> js_object" where
  "objectSpread srcs = fold (\<lambda>src acc. fold (\<lambda>(k, v) acc. setProp k v acc) src acc) srcs []"

text \<open>\<^verbatim>\<open>String.prototype.toLowerCase\<close> on ASCII letters; other characters are kept.\<close>

definition toLowerChar :: "char \<Rightarrow> char" where
  "toLowerChar c =
     (case map_of (zip ''ABCDEFGHIJKLMNOPQRSTUVWXYZ'' ''abcdefghijklmnopqrstuvwxyz'') c of
        None \<Rightarrow> c | Some l \<Rightarrow> l)"

definition toLowerCase :: "string \<Rightarrow> string" where
  "toLowerCase s = map toLowerChar s"

text \<open>\<^verbatim>\<open>String.prototype.includes\<close>: the needle occurs as a contiguous substring.\<close>

fun str_includes :: "string \<Rightarrow> string \<Rightarrow> bool" where
  "str_includes [] sub = (sub = [])"
| "str_includes (c # cs) sub = (take (length sub) (c # cs) = sub \<or> str_includes cs sub)"

text \<open>\<^verbatim>\<open>Array.prototype.join\<close>\<close>

fun join :: "string \<Rightarrow> string list \<Rightarrow> string" where
  "join sep [] = []"
| "join sep [a] = a"
| "join sep (a # b # bs) = a @ sep @ join sep (b # bs)"

section \<open>Default options and option merging (AccurateAsciiRenderer.ts, AccurateRendererPlugin.ts)\<close>

definition ACCURATE_DEFAULT_OPTIONS :: js_object where
  "ACCURATE_DEFAULT_OPTIONS =
     [(''enabled'', JSBool True),
      (''characters'', JSString '' .:-=+*%@#''),
      (''characterColor'', JSString ''#FFFFFF''),
      (''characterColorMode'', JSString ''sampled''),
      (''backgroundColor'', JSString ''#000000''),
      (''backgroundColorMode'', JSString ''sampled''),
      (''invertMode'', JSBool False),
      (''rotationAngle'', JSNumber 0),
      (''flipHorizontally'', JSBool False),
      (''flipVertically'', JSBool False)]"

text \<open>
  The constructor's parameter \<^verbatim>\<open>options = ACCURATE_DEFAULT_OPTIONS\<close> followed by
  \<^verbatim>\<open>const mergedOptions = { ...ACCURATE_DEFAULT_OPTIONS, ...options }\<close>; \<open>None\<close> is an omitted
  or undefined argument.
\<close>

definition mergedOptions :: "js_object option \<Rightarrow> js_object" where
  "mergedOptions options =
     (let options = (case options of None \<Rightarrow> ACCURATE_DEFAULT_OPTIONS | Some opts \<Rightarrow> opts)
      in objectSpread [ACCURATE_DEFAULT_OPTIONS, options])"

text \<open>The argument \<^verbatim>\<open>options || ACCURATE_DEFAULT_OPTIONS\<close> that the plugin's \<^verbatim>\<open>create\<close> passes on.\<close>

definition createOptionsArg :: "js_object option \<Rightarrow> js_object option" where
  "createOptionsArg options =
     (case options of None \<Rightarrow> Some ACCURATE_DEFAULT_OPTIONS | Some opts \<Rightarrow> Some opts)"

section \<open>Looking up the host base class (getBaseClass, getCachedBaseClass)\<close>

text \<open>
  The environment of the module: the imported \<^verbatim>\<open>renderers\<close> namespace and the \<^verbatim>\<open>window\<close>
  object, each \<open>None\<close> when \<^verbatim>\<open>typeof\<close> reports it as undefined.
\<close>

record js_env =
  renderers :: "js_object option"
  window :: "js_object option"

definition baseClassName :: string where
  "baseClassName = ''P5AsciifyAbstractFeatureRenderer2D''"

definition esmResolves :: "js_env \<Rightarrow> bool" where
  "esmResolves env =
     (case renderers env of None \<Rightarrow> False
      | Some r \<Rightarrow>
          truthy (objectGet r ''renderer2d'')
          \<and> truthy (getProp (objectGet r ''renderer2d'') ''feature'')
          \<and> typeof (getProp (getProp (objectGet r ''renderer2d'') ''feature'') baseClassName)
               \<noteq> ''undefined'')"

definition esmClass :: "js_env \<Rightarrow> js_value" where
  "esmClass env =
     (case renderers env of None \<Rightarrow> JSUndefined
      | Some r \<Rightarrow> getProp (getProp (objectGet r ''renderer2d'') ''feature'') baseClassName)"

definition globalResolves :: "js_env \<Rightarrow> bool" where
  "globalResolves env =
     (case window env of None \<Rightarrow> False
      | Some w \<Rightarrow> truthy (objectGet w baseClassName)
                 \<and> typeof (objectGet w baseClassName) = ''function'')"

definition globalClass :: "js_env \<Rightarrow> js_value" where
  "globalClass env = (case window env of None \<Rightarrow> JSUndefined | Some w \<Rightarrow> objectGet w baseClassName)"

definition availableGlobals :: "js_env \<Rightarrow> string list" where
  "availableGlobals env =
     (case window env of None \<Rightarrow> []
      | Some w \<Rightarrow> filter (\<lambda>key. str_includes (toLowerCase key) ''asciify''
                             \<or> str_includes (toLowerCase key) ''p5'') (map fst w))"

definition notFoundMessage :: "string list \<Rightarrow> string" where
  "notFoundMessage globals =
     ''`P5AsciifyAbstractFeatureRenderer2D` not found. ''
     @ ''Please ensure p5.asciify is loaded before this plugin. ''
     @ (if length globals > 0 then ''Found related globals: '' @ join '', '' globals
        else ''No related globals found.'')"

definition getBaseClass :: "js_env \<Rightarrow> js_error + js_value" where
  "getBaseClass env =
     (if esmResolves env then Inr (esmClass env)
      else if globalResolves env then Inr (globalClass env)
      else Inl (Error (notFoundMessage (availableGlobals env))))"

text \<open>
  \<^verbatim>\<open>cachedBaseClass\<close> is module state: the function takes its value and returns the new one
  beside the result. A throw of \<^verbatim>\<open>getBaseClass\<close> leaves the cache as it was.
\<close>

definition getCachedBaseClass :: "js_env \<Rightarrow> js_value \<Rightarrow> (js_error + js_value) \<times> js_value" where
  "getCachedBaseClass env cachedBaseClass =
     (if cachedBaseClass = JSNull then
        (case getBaseClass env of
           Inl err \<Rightarrow> (Inl err, cachedBaseClass)
         | Inr cls \<Rightarrow> (Inr cls, cls))
      else (Inr cachedBaseClass, cachedBaseClass))"

section \<open>The renderer object (P5AsciifyAccurateRenderer)\<close>

record p5_framebuffer =
  fb_density :: nat
  fb_width :: nat
  fb_height :: nat

definition resize :: "p5_framebuffer \<Rightarrow> nat \<Rightarrow> nat \<Rightarrow> p5_framebuffer" where
  "resize fb w h = fb\<lparr>fb_width := w, fb_height := h\<rparr>"

text \<open>
  A fragment shader source is the template of its generator with the arguments that the
  template literal interpolates; \<^verbatim>\<open>brightnessSplit.frag\<close> is a fixed text.
\<close>

datatype frag_source =
    CharacterSelectionFrag nat
  | BrightnessSampleFrag nat nat
  | ColorSampleFrag nat nat nat
  | BrightnessSplitFrag

datatype vert_source = ShaderVert

definition generateCharacterSelectionShader :: "nat \<Rightarrow> frag_source" where
  "generateCharacterSelectionShader t = CharacterSelectionFrag t"

definition generateBrightnessSampleShader :: "nat \<Rightarrow> nat \<Rightarrow> frag_source" where
  "generateBrightnessSampleShader t i = BrightnessSampleFrag t i"

definition generateColorSampleShader :: "nat \<Rightarrow> nat \<Rightarrow> nat \<Rightarrow> frag_source" where
  "generateColorSampleShader t i n = ColorSampleFrag t i n"

definition brightnessSplitSource :: frag_source where
  "brightnessSplitSource = BrightnessSplitFrag"

definition vertexShader :: vert_source where
  "vertexShader = ShaderVert"

text \<open>
  \<^verbatim>\<open>createShader\<close> compiles a new program on every call. The p5 instance counts the programs
  it has created, and a program carries the count at its creation as its identity.
\<close>

record p5_shader =
  shader_id :: nat
  vert_src :: vert_source
  frag_src :: frag_source

record p5_instance =
  shadersCreated :: nat

definition createShader :: "p5_instance \<Rightarrow> vert_source \<Rightarrow> frag_source \<Rightarrow> p5_shader \<times> p5_instance" where
  "createShader p vs fs =
     (\<lparr>shader_id = shadersCreated p, vert_src = vs, frag_src = fs\<rparr>,
      p\<lparr>shadersCreated := Suc (shadersCreated p)\<rparr>)"

text \<open>
  \<^verbatim>\<open>createFramebuffer({density, width, height, ...})\<close>; of the options the model keeps the
  density and the dimensions (the depth format and the texture filtering play no role here).
\<close>

definition createFramebuffer :: "nat \<Rightarrow> nat \<Rightarrow> nat \<Rightarrow> p5_framebuffer" where
  "createFramebuffer d w h = \<lparr>fb_density = d, fb_width = w, fb_height = h\<rparr>"

record asciify_grid =
  cols :: nat
  rows :: nat
  cellWidth :: nat
  cellHeight :: nat

record asciify_fontManager =
  fontSize :: nat

text \<open>The fields that the renderer inherits from the host's base class.\<close>

record host_renderer =
  p5 :: p5_instance
  captureFramebuffer :: p5_framebuffer
  grid :: asciify_grid
  fontManager :: asciify_fontManager
  options :: js_object

record accurate_renderer =
  host :: host_renderer
  characterSelectionShaderField :: p5_shader
  brightnessSampleShaderField :: p5_shader
  colorSampleShaderField :: p5_shader
  brightnessSplitShaderField :: p5_shader
  brightnessSampleFramebuffer :: p5_framebuffer
  brightnessSplitFramebuffer :: p5_framebuffer

text \<open>
  The three \<^verbatim>\<open>createShader\<close> calls that the constructor and \<^verbatim>\<open>resetShaders\<close> share, in
  source order, threading the p5 instance.
\<close>

definition createGeneratedShaders ::
  "host_renderer \<Rightarrow> (p5_shader \<times> p5_shader \<times> p5_shader) \<times> host_renderer" where
  "createGeneratedShaders h =
     (let (cs, p1) = createShader (p5 h) vertexShader
                       (generateCharacterSelectionShader (fontSize (fontManager h)));
          (bs, p2) = createShader p1 vertexShader
                       (generateBrightnessSampleShader (cellHeight (grid h)) (cellWidth (grid h)));
          (co, p3) = createShader p2 vertexShader
                       (generateColorSampleShader 16 (cellHeight (grid h)) (cellWidth (grid h)))
      in ((cs, bs, co), h\<lparr>p5 := p3\<rparr>))"

text \<open>
  The constructor. The base class's constructor is host code; \<open>super\<close> stands for it and
  yields the inherited fields from the five arguments.
\<close>

definition construct ::
  "(p5_instance \<Rightarrow> p5_framebuffer \<Rightarrow> asciify_grid \<Rightarrow> asciify_fontManager \<Rightarrow> js_object \<Rightarrow> host_renderer)
     \<Rightarrow> p5_instance \<Rightarrow> p5_framebuffer \<Rightarrow> asciify_grid \<Rightarrow> asciify_fontManager \<Rightarrow> js_object option
     \<Rightarrow> accurate_renderer" where
  "construct super p5Instance captureFb g fm opts =
     (let h0 = super p5Instance captureFb g fm (mergedOptions opts);
          ((cs, bs, co), h1) = createGeneratedShaders h0;
          (sp, p4) = createShader (p5 h1) vertexShader brightnessSplitSource;
          h2 = h1\<lparr>p5 := p4\<rparr>
      in \<lparr>host = h2,
          characterSelectionShaderField = cs,
          brightnessSampleShaderField = bs,
          colorSampleShaderField = co,
          brightnessSplitShaderField = sp,
          brightnessSampleFramebuffer = createFramebuffer 1 (cols (grid h2)) (rows (grid h2)),
          brightnessSplitFramebuffer =
            createFramebuffer 1 (fb_width (captureFramebuffer h2)) (fb_height (captureFramebuffer h2))\<rparr>)"

text \<open>
  \<^verbatim>\<open>resizeFramebuffers\<close>: \<open>super\<close> stands for the base class's method, which works on the
  inherited fields.
\<close>

definition resizeFramebuffers ::
  "(host_renderer \<Rightarrow> host_renderer) \<Rightarrow> accurate_renderer \<Rightarrow> accurate_renderer" where
  "resizeFramebuffers super r =
     (let h = super (host r)
      in r\<lparr>host := h,
           brightnessSampleFramebuffer :=
             resize (brightnessSampleFramebuffer r) (cols (grid h)) (rows (grid h)),
           brightnessSplitFramebuffer :=
             resize (brightnessSplitFramebuffer r)
               (fb_width (captureFramebuffer h)) (fb_height (captureFramebuffer h))\<rparr>)"

definition resetShaders :: "accurate_renderer \<Rightarrow> accurate_renderer" where
  "resetShaders r =
     (let ((cs, bs, co), h) = createGeneratedShaders (host r)
      in r\<lparr>host := h,
           characterSelectionShaderField := cs,
           brightnessSampleShaderField := bs,
           colorSampleShaderField := co\<rparr>)"

section \<open>Notions for the properties of the colour sampler\<close>

text \<open>
  The colours that the tally loop of the colour sample shader processes: those of the
  sub-samples whose mask value matches the rank, in traversal order.
\<close>

definition matchedColors ::
  "sampler2D \<Rightarrow> sampler2D \<Rightarrow> vec2 \<Rightarrow> int \<Rightarrow> int \<Rightarrow> nat \<Rightarrow> nat \<Rightarrow> int \<Rightarrow> vec2 \<Rightarrow> vec4 list" where
  "matchedColors u_inputImage u_inputImageBW u_inputImageSize u_gridCols u_gridRows u f u_colorRank
       gl_FragCoord =
     map (\<lambda>vk. texture2D u_inputImage
                 (sampleCoord (cellPixelOrigin u_inputImageSize u_gridCols u_gridRows gl_FragCoord)
                    (cellPixelSize u_inputImageSize u_gridCols u_gridRows) u_inputImageSize u f vk))
       (filter (\<lambda>vk. rankMatches u_colorRank (texture2D u_inputImageBW
                 (sampleCoord (cellPixelOrigin u_inputImageSize u_gridCols u_gridRows gl_FragCoord)
                    (cellPixelSize u_inputImageSize u_gridCols u_gridRows) u_inputImageSize u f vk)))
          (subSamples u f))"

text \<open>The distinct elements of a list in the order of their first occurrence.\<close>

definition encounterOrder :: "'a list \<Rightarrow> 'a list" where
  "encounterOrder xs = rev (remdups (rev xs))"

text \<open>A bucket as the initialisation \<^verbatim>\<open>c[i]=vec4(0),b[i]=0.\<close> leaves it, and the colour a bucket is
  compared by.\<close>

definition emptyBucket :: "vec4 \<times> real" where
  "emptyBucket = (Vec4 0 0 0 0, 0)"

definition bucketKey :: "vec4 \<times> real \<Rightarrow> vec3" where
  "bucketKey cb = xyz (fst cb)"

text \<open>
  The bucket array after the samples \<open>xs\<close>: its first buckets \<open>F\<close> hold the first \<open>e\<close> distinct
  colours in encounter order, each with its number of occurrences; the others are empty.
\<close>

definition tallied :: "nat \<Rightarrow> vec4 list \<Rightarrow> buckets \<Rightarrow> bool" where
  "tallied e xs F \<longleftrightarrow>
     fold tallyColor xs (replicate e emptyBucket) = F @ replicate (e - length F) emptyBucket
     \<and> map bucketKey F = take e (encounterOrder (map xyz xs))
     \<and> (\<forall>cb \<in> set F. snd cb = real (count_list (map xyz xs) (bucketKey cb)))"

section \<open>Concrete inputs\<close>

text \<open>Inputs at which the theorems below are evaluated.\<close>

text \<open>A capture buffer of uniform gray 126/255 and a brightness map holding 127/255.\<close>

definition grayPixel126 :: sampler2D where
  "grayPixel126 c = Vec4 (126 / 255) (126 / 255) (126 / 255) 1"

definition grayAverage127 :: sampler2D where
  "grayAverage127 c = Vec4 (127 / 255) (127 / 255) (127 / 255) 1"

text \<open>A host constructor that stores its arguments, and a renderer built through it.\<close>

definition exampleSuper ::
  "p5_instance \<Rightarrow> p5_framebuffer \<Rightarrow> asciify_grid \<Rightarrow> asciify_fontManager \<Rightarrow> js_object \<Rightarrow> host_renderer" where
  "exampleSuper p cf g fm opts =
     \<lparr>p5 = p, captureFramebuffer = cf, grid = g, fontManager = fm, options = opts\<rparr>"

definition exampleRenderer :: accurate_renderer where
  "exampleRenderer =
     construct exampleSuper \<lparr>shadersCreated = 0\<rparr> (createFramebuffer 1 800 600)
       \<lparr>cols = 100, rows = 50, cellWidth = 8, cellHeight = 12\<rparr> \<lparr>fontSize = 12\<rparr> None"

text \<open>
  Two environments without the imported namespace: one whose window holds related globals but
  not the base class, one whose window exports the base class.
\<close>

definition envGlobalsOnly :: js_env where
  "envGlobalsOnly =
     \<lparr>renderers = None,
      window = Some [(''p5'', JSFunction 0), (''document'', JSObject []),
                     (''P5Asciifier'', JSFunction 1)]\<rparr>"

definition envWindowExport :: js_env where
  "envWindowExport =
     \<lparr>renderers = None,
      window = Some [(''p5'', JSFunction 0),
                     (''P5AsciifyAbstractFeatureRenderer2D'', JSFunction 7)]\<rparr>"

text \<open>
  Textures: an image that is black on its left half and white on its right half, a uniformly
  opaque white one and a fully transparent one.
\<close>

definition twoToneImage :: sampler2D where
  "twoToneImage c = (if fst c < 1 / 2 then Vec4 0 0 0 1 else Vec4 1 1 1 1)"

definition opaqueWhite :: sampler2D where
  "opaqueWhite c = Vec4 1 1 1 1"

definition clearTexture :: sampler2D where
  "clearTexture c = Vec4 0 0 0 0"

text \<open>A checkerboard of red and blue quadrants.\<close>

definition checkerImage :: sampler2D where
  "checkerImage c = (if (fst c < 1 / 2) = (snd c < 1 / 2) then Vec4 1 0 0 1 else Vec4 0 0 1 1)"

text \<open>
  Palette textures over a glyph atlas of two columns (glyph 0 blank, glyph 1 solid, as in the
  two-tone image): one of 1025 entries whose first 1024 hold glyph 0 and whose last holds
  glyph 1, and one of two entries holding glyph 0 and glyph 1.
\<close>

definition examplePalette :: sampler2D where
  "examplePalette c = (if fst c < 1024 / 1025 then Vec4 0 0 0 1 else Vec4 (1 / 255) 0 0 1)"

definition twoEntryPalette :: sampler2D where
  "twoEntryPalette c = (if fst c < 1 / 2 then Vec4 0 0 0 1 else Vec4 (1 / 255) 0 0 1)"

text \<open>
  An image of twenty vertical stripes: sixteen distinct reds, then green, blue, green, blue.
\<close>

definition manyColorImage :: sampler2D where
  "manyColorImage c =
     (if fst c < 16 / 20 then Vec4 (of_int (\<lfloor>fst c * 20\<rfloor> + 1) / 255) 0 0 1
      else if fst c < 17 / 20 then Vec4 0 1 0 1
      else if fst c < 18 / 20 then Vec4 0 0 1 1
      else if fst c < 19 / 20 then Vec4 0 1 0 1
      else Vec4 0 0 1 1)"

section \<open>Brightness splitter\<close>

lemma brightnessSplitShader_opaque:
  "brightnessSplitShader img bt sz gc gr pr fc =
     (let p = splitPixel img sz pr fc; a = splitCellAverage bt sz gc gr pr fc
      in if vw p < EPSILON then Vec4 0 0 0 0
         else if luminance p - a < - EPSILON then Vec4 0 0 0 1 else Vec4 1 1 1 1)"
  by (simp add: brightnessSplitShader_def splitPixel_def splitCellAverage_def Let_def)

text \<open>
  C2 (amended). For every opaque source pixel (alpha not below \<open>EPSILON\<close>) the brightness
  splitter outputs exactly 1.0 in the colour channels if the pixel's luminance is at least the
  cell's average brightness minus the tolerance \<open>EPSILON = 0.01\<close>, and exactly 0.0 otherwise;
  the output alpha is 1.
\<close>

theorem brightnessSplit_threshold:
  assumes "\<not> vw (splitPixel img sz pr fc) < EPSILON"
  shows "brightnessSplitShader img bt sz gc gr pr fc =
           (if luminance (splitPixel img sz pr fc) \<ge> splitCellAverage bt sz gc gr pr fc - EPSILON
            then Vec4 1 1 1 1 else Vec4 0 0 0 1)"
  using assms by (simp add: brightnessSplitShader_opaque Let_def not_less)

text \<open>An opaque pixel of luminance 126/255 in a cell of average 127/255.\<close>

theorem brightnessSplit_threshold_witness:
  "\<not> vw (splitPixel grayPixel126 (2, 1) 1 (1/2, 1/2)) < EPSILON
   \<and> brightnessSplitShader grayPixel126 grayAverage127 (2, 1) 1 1 1 (1/2, 1/2) = Vec4 1 1 1 1"
proof -
  have h: "\<not> vw (splitPixel grayPixel126 (2, 1) 1 (1/2, 1/2)) < EPSILON"
    by (simp add: splitPixel_def texture2D_def grayPixel126_def EPSILON_def)
  have "luminance (splitPixel grayPixel126 (2, 1) 1 (1/2, 1/2))
          \<ge> splitCellAverage grayAverage127 (2, 1) 1 1 1 (1/2, 1/2) - EPSILON"
    by (simp add: splitPixel_def splitCellAverage_def texture2D_def grayPixel126_def
        grayAverage127_def EPSILON_def luminance_def)
  with h brightnessSplit_threshold [OF h, of grayAverage127 1 1] show ?thesis by simp
qed

text \<open>
  C2 as stated fails: the pixel of luminance 126/255 is darker than its cell's average
  127/255, and the output is 1.0, because the difference lies within the tolerance.
\<close>

theorem brightnessSplit_indicator_counterexample:
  "\<not> vw (splitPixel grayPixel126 (2, 1) 1 (1/2, 1/2)) < EPSILON
   \<and> luminance (splitPixel grayPixel126 (2, 1) 1 (1/2, 1/2))
       < splitCellAverage grayAverage127 (2, 1) 1 1 1 (1/2, 1/2)
   \<and> brightnessSplitShader grayPixel126 grayAverage127 (2, 1) 1 1 1 (1/2, 1/2) = Vec4 1 1 1 1"
  by (simp add: brightnessSplitShader_opaque Let_def splitPixel_def splitCellAverage_def
      texture2D_def grayPixel126_def grayAverage127_def EPSILON_def luminance_def)

section \<open>Brightness sampler\<close>

lemma fold_add_sum_list:
  "fold (\<lambda>x (acc::real). acc + h x) xs a = a + sum_list (map h xs)"
  by (induction xs arbitrary: a) simp_all

lemma sum_list_product:
  "sum_list (map h (List.product xs ys)) = (\<Sum>x\<leftarrow>xs. \<Sum>y\<leftarrow>ys. (h (x, y) :: real))"
  by (induction xs) (simp_all add: comp_def)

lemma sum_list_upt_sum: "(\<Sum>x\<leftarrow>[0..<n]. (h x :: real)) = (\<Sum>x<n. h x)"
  by (simp add: interv_sum_list_conv_sum_set_nat atLeast0LessThan)

lemma fold_subSamples_sum:
  "fold (\<lambda>sg (acc::real). acc + h sg) (subSamples u f) 0 = (\<Sum>s<u. \<Sum>g<f. h (s, g))"
  by (simp add: fold_add_sum_list subSamples_def sum_list_product sum_list_upt_sum)

lemma clampf_unit: "0 \<le> clampf a 0 1 \<and> clampf a 0 1 \<le> 1"
  by (simp add: clampf_def)

lemma sampleCoord_explicit:
  "sampleCoord (cellPixelOrigin sz gc gr fc) (cellPixelSize sz gc gr) sz u f (s, g)
     = (clampf ((floorf (fst fc) + (real s + 1 / 2) / real u) * (fst sz / of_int gc) / fst sz) 0 1,
        clampf ((floorf (snd fc) + (real g + 1 / 2) / real f) * (snd sz / of_int gr) / snd sz) 0 1)"
proof -
  have e: "c * w + (a + h) * (w / d) = (c + (a + h) / d) * w" for c w a h d :: real
    by (simp add: distrib_right)
  show ?thesis
    unfolding sampleCoord_def cellPixelOrigin_def cellPixelSize_def fst_conv snd_conv e
    by simp
qed

lemma subSample_inside:
  fixes c w :: real
  assumes "s < u" and "0 < w"
  shows "c * w < (c + (real s + 1 / 2) / real u) * w \<and> (c + (real s + 1 / 2) / real u) * w < (c + 1) * w"
proof -
  from assms(1) have u: "0 < real u" by simp
  from assms(1) have "real s + 1 \<le> real u" by linarith
  then have lt: "real s + 1 / 2 < real u" by simp
  have a: "0 < (real s + 1 / 2) / real u" using u by simp
  have b: "(real s + 1 / 2) / real u < 1" using u lt by simp
  from a have "c < c + (real s + 1 / 2) / real u" by simp
  then have 1: "c * w < (c + (real s + 1 / 2) / real u) * w"
    using assms(2) by (simp only: mult_strict_right_mono)
  from b have "c + (real s + 1 / 2) / real u < c + 1" by simp
  then have 2: "(c + (real s + 1 / 2) / real u) * w < (c + 1) * w"
    using assms(2) by (simp only: mult_strict_right_mono)
  from 1 2 show ?thesis by simp
qed

lemma construct_sample_framebuffer:
  "brightnessSampleFramebuffer (construct super p cf g fm opts)
     = createFramebuffer 1 (cols (grid (host (construct super p cf g fm opts))))
         (rows (grid (host (construct super p cf g fm opts))))"
  by (simp add: construct_def createGeneratedShaders_def createShader_def Let_def)

text \<open>
  C3. For the fragment \<open>(x, y)\<close>, that is the grid cell in column \<open>\<lfloor>x\<rfloor>\<close> and row \<open>\<lfloor>y\<rfloor>\<close>, and
  positive sub-sample counts \<open>u\<close> and \<open>f\<close>, the brightness sampler's output is the arithmetic
  mean over the \<open>u\<close> by \<open>f\<close> sub-sample grid of the luminance 0.299 R + 0.587 G + 0.114 B of the
  sampled pixels. Sub-sample \<open>(s, g)\<close> is read at the pixel position
  \<open>((\<lfloor>x\<rfloor> + (s + 1/2) / u) cw, (\<lfloor>y\<rfloor> + (g + 1/2) / f) ch)\<close> with \<open>cw\<close> and \<open>ch\<close> the cell's width and
  height in pixels, which lies strictly inside the cell's pixel range
  \<open>\<lfloor>x\<rfloor> cw .. (\<lfloor>x\<rfloor> + 1) cw\<close> by \<open>\<lfloor>y\<rfloor> ch .. (\<lfloor>y\<rfloor> + 1) ch\<close>; divided by the image size, each
  coordinate is clamped to [0,1]. The constructor bakes the grid's cell height and cell width
  into the shader as \<open>u\<close> and \<open>f\<close>, and the buffer it creates for the output has density 1, the
  grid's columns as width and its rows as height.
\<close>

theorem brightnessSample_mean:
  assumes "0 < u" and "0 < f"
  shows "brightnessSampleShader u f img sz gc gr fc =
           (let m = (\<Sum>s<u. \<Sum>g<f. luminance (texture2D img
                       (clampf ((floorf (fst fc) + (real s + 1 / 2) / real u)
                                  * (fst sz / of_int gc) / fst sz) 0 1,
                        clampf ((floorf (snd fc) + (real g + 1 / 2) / real f)
                                  * (snd sz / of_int gr) / snd sz) 0 1)))
                    / (real u * real f)
            in Vec4 m m m 1)
         \<and> (s < u \<and> 0 < fst sz / of_int gc \<longrightarrow>
               floorf (fst fc) * (fst sz / of_int gc)
                 < (floorf (fst fc) + (real s + 1 / 2) / real u) * (fst sz / of_int gc)
               \<and> (floorf (fst fc) + (real s + 1 / 2) / real u) * (fst sz / of_int gc)
                 < (floorf (fst fc) + 1) * (fst sz / of_int gc))
         \<and> (g < f \<and> 0 < snd sz / of_int gr \<longrightarrow>
               floorf (snd fc) * (snd sz / of_int gr)
                 < (floorf (snd fc) + (real g + 1 / 2) / real f) * (snd sz / of_int gr)
               \<and> (floorf (snd fc) + (real g + 1 / 2) / real f) * (snd sz / of_int gr)
                 < (floorf (snd fc) + 1) * (snd sz / of_int gr))
         \<and> sampleCoord (cellPixelOrigin sz gc gr fc) (cellPixelSize sz gc gr) sz u f (s, g)
             = (clampf ((floorf (fst fc) + (real s + 1 / 2) / real u)
                          * (fst sz / of_int gc) / fst sz) 0 1,
                clampf ((floorf (snd fc) + (real g + 1 / 2) / real f)
                          * (snd sz / of_int gr) / snd sz) 0 1)
         \<and> 0 \<le> clampf a 0 1 \<and> clampf a 0 1 \<le> 1
         \<and> luminance d = 0.299 * vx d + 0.587 * vy d + 0.114 * vz d
         \<and> frag_src (brightnessSampleShaderField (construct super p cf g0 fm opts))
             = BrightnessSampleFrag (cellHeight (grid (host (construct super p cf g0 fm opts))))
                 (cellWidth (grid (host (construct super p cf g0 fm opts))))
         \<and> fb_width (brightnessSampleFramebuffer (construct super p cf g0 fm opts))
             = cols (grid (host (construct super p cf g0 fm opts)))
         \<and> fb_height (brightnessSampleFramebuffer (construct super p cf g0 fm opts))
             = rows (grid (host (construct super p cf g0 fm opts)))
         \<and> fb_density (brightnessSampleFramebuffer (construct super p cf g0 fm opts)) = 1"
proof -
  have 1: "brightnessSampleShader u f img sz gc gr fc =
           (let m = (\<Sum>s<u. \<Sum>g<f. luminance (texture2D img
                       (clampf ((floorf (fst fc) + (real s + 1 / 2) / real u)
                                  * (fst sz / of_int gc) / fst sz) 0 1,
                        clampf ((floorf (snd fc) + (real g + 1 / 2) / real f)
                                  * (snd sz / of_int gr) / snd sz) 0 1)))
                    / (real u * real f)
            in Vec4 m m m 1)"
    unfolding brightnessSampleShader_def Let_def
    by (simp add: fold_subSamples_sum sampleCoord_explicit)
  have 2: "s < u \<and> 0 < fst sz / of_int gc \<longrightarrow>
               floorf (fst fc) * (fst sz / of_int gc)
                 < (floorf (fst fc) + (real s + 1 / 2) / real u) * (fst sz / of_int gc)
               \<and> (floorf (fst fc) + (real s + 1 / 2) / real u) * (fst sz / of_int gc)
                 < (floorf (fst fc) + 1) * (fst sz / of_int gc)"
    using subSample_inside by blast
  have 3: "g < f \<and> 0 < snd sz / of_int gr \<longrightarrow>
               floorf (snd fc) * (snd sz / of_int gr)
                 < (floorf (snd fc) + (real g + 1 / 2) / real f) * (snd sz / of_int gr)
               \<and> (floorf (snd fc) + (real g + 1 / 2) / real f) * (snd sz / of_int gr)
                 < (floorf (snd fc) + 1) * (snd sz / of_int gr)"
    using subSample_inside by blast
  have 4: "frag_src (brightnessSampleShaderField (construct super p cf g0 fm opts))
             = BrightnessSampleFrag (cellHeight (grid (host (construct super p cf g0 fm opts))))
                 (cellWidth (grid (host (construct super p cf g0 fm opts))))"
    by (simp add: construct_def createGeneratedShaders_def createShader_def Let_def
        generateBrightnessSampleShader_def)
  have 5: "fb_width (brightnessSampleFramebuffer (construct super p cf g0 fm opts))
             = cols (grid (host (construct super p cf g0 fm opts)))
         \<and> fb_height (brightnessSampleFramebuffer (construct super p cf g0 fm opts))
             = rows (grid (host (construct super p cf g0 fm opts)))
         \<and> fb_density (brightnessSampleFramebuffer (construct super p cf g0 fm opts)) = 1"
    by (simp add: construct_sample_framebuffer createFramebuffer_def)
  have 6: "0 \<le> clampf a 0 1 \<and> clampf a 0 1 \<le> 1" by (rule clampf_unit)
  have 7: "luminance d = 0.299 * vx d + 0.587 * vy d + 0.114 * vz d" by (simp add: luminance_def)
  from 1 2 3 4 5 6 7 sampleCoord_explicit [of sz gc gr fc u f s g] show ?thesis
    by (simp only: simp_thms)
qed

text \<open>
  Over the two-tone image: one cell with two samples in x gives the mean of black and white;
  of the two cells of a 2 by 1 grid the left one gives black and the right one white, and the
  right cell's sample lies between the pixel columns 1 and 2.
\<close>

theorem brightnessSample_mean_witness:
  "(0::nat) < 2 \<and> (0::nat) < 1
   \<and> brightnessSampleShader 2 1 twoToneImage (2, 1) 1 1 (1/2, 1/2) = Vec4 (1/2) (1/2) (1/2) 1
   \<and> brightnessSampleShader 1 1 twoToneImage (2, 1) 2 1 (1/2, 1/2) = Vec4 0 0 0 1
   \<and> brightnessSampleShader 1 1 twoToneImage (2, 1) 2 1 (3/2, 1/2) = Vec4 1 1 1 1
   \<and> (1::real) < (floorf (3 / 2) + (real 0 + 1 / 2) / real 1) * (2 / of_int 2)
   \<and> (floorf (3 / 2) + (real 0 + 1 / 2) / real 1) * (2 / of_int 2) < (2::real)"
proof -
  have u: "(0::nat) < 2" and f: "(0::nat) < 1" by simp_all
  have a: "brightnessSampleShader 2 1 twoToneImage (2, 1) 1 1 (1/2, 1/2) = Vec4 (1/2) (1/2) (1/2) 1"
    using brightnessSample_mean [OF u f, of twoToneImage "(2, 1)" 1 1 "(1/2, 1/2)"]
    by (simp add: Let_def lessThan_Suc numeral_2_eq_2 luminance_def texture2D_def
        twoToneImage_def clampf_def floorf_def)
  have b: "brightnessSampleShader 1 1 twoToneImage (2, 1) 2 1 (1/2, 1/2) = Vec4 0 0 0 1"
    using brightnessSample_mean [OF f f, of twoToneImage "(2, 1)" 2 1 "(1/2, 1/2)"]
    by (simp add: Let_def luminance_def texture2D_def twoToneImage_def clampf_def floorf_def)
  have c: "brightnessSampleShader 1 1 twoToneImage (2, 1) 2 1 (3/2, 1/2) = Vec4 1 1 1 1"
    using brightnessSample_mean [OF f f, of twoToneImage "(2, 1)" 2 1 "(3/2, 1/2)"]
    by (simp add: Let_def luminance_def texture2D_def twoToneImage_def clampf_def floorf_def)
  have d: "(1::real) < (floorf (3 / 2) + (real 0 + 1 / 2) / real 1) * (2 / of_int 2)
       \<and> (floorf (3 / 2) + (real 0 + 1 / 2) / real 1) * (2 / of_int 2) < (2::real)"
    using brightnessSample_mean [OF f f, where s = 0 and sz = "(2, 1)" and gc = 2
        and fc = "(3/2, 1/2)"]
    by (simp add: floorf_def)
  from u f a b c d show ?thesis by simp
qed

section \<open>Colour sampler\<close>

lemma fold_filter_map:
  "fold (\<lambda>x acc. let s = c x; m = a s; d = b s in if \<not> P d then acc else g m acc) xs acc0
     = fold g (map (\<lambda>x. a (c x)) (filter (\<lambda>x. P (b (c x))) xs)) acc0"
  by (induction xs arbitrary: acc0) (simp_all add: Let_def)

lemma colorSampleShader_eq:
  "colorSampleShader e u f img bw sz gc gr rank fc =
     (let zm = pickBucket (fold tallyColor (matchedColors img bw sz gc gr u f rank fc)
                             (replicate e emptyBucket));
          m = (if rank = 2 \<and> fst zm = 0 then texture2D img (cellCenter sz gc gr fc) else snd zm)
      in Vec4 (vx m) (vy m) (vz m) 1)"
  unfolding colorSampleShader_def matchedColors_def emptyBucket_def Let_def fold_filter_map [unfolded Let_def]
  by (simp add: split_beta)

lemma bump_snd: "snd (bumpBucket m F) \<longleftrightarrow> xyz m \<in> bucketKey ` set F"
  by (induction F) (auto simp: bucketKey_def split_beta)

lemma bump_length: "length (fst (bumpBucket m F)) = length F"
  by (induction F) (auto simp: split_beta)

lemma bump_miss_id: "\<not> snd (bumpBucket m F) \<Longrightarrow> fst (bumpBucket m F) = F"
  by (induction F) (auto simp: split_beta split: if_splits)

lemma bump_append_hit:
  "snd (bumpBucket m F) \<Longrightarrow> bumpBucket m (F @ R) = (fst (bumpBucket m F) @ R, True)"
  by (induction F) (auto simp: split_beta split: if_splits)

lemma bump_append_miss:
  "\<not> snd (bumpBucket m F) \<Longrightarrow>
     bumpBucket m (F @ R) = (F @ fst (bumpBucket m R), snd (bumpBucket m R))"
  by (induction F) (auto simp: split_beta split: if_splits)

lemma bump_hit_map:
  "distinct (map bucketKey F) \<Longrightarrow>
     fst (bumpBucket m F)
       = map (\<lambda>cb. if bucketKey cb = xyz m then (fst cb, snd cb + 1) else cb) F"
proof (induction F)
  case Nil
  then show ?case by simp
next
  case (Cons a F)
  obtain c b where a: "a = (c, b)" by (cases a)
  show ?case
  proof (cases "xyz m = xyz c")
    case True
    with Cons.prems a have "xyz m \<notin> bucketKey ` set F"
      by (simp add: bucketKey_def)
    then have "\<forall>cb \<in> set F. bucketKey cb \<noteq> xyz m"
      by (metis imageI)
    then have "map (\<lambda>cb. if bucketKey cb = xyz m then (fst cb, snd cb + 1) else cb) F = F"
      by (simp add: map_idI)
    with True a show ?thesis by (simp add: bucketKey_def)
  next
    case False
    with Cons a show ?thesis by (auto simp: bucketKey_def split_beta)
  qed
qed

lemma bump_replicate_black:
  "xyz m = xyz (Vec4 0 0 0 0) \<Longrightarrow>
     bumpBucket m (replicate (Suc k) emptyBucket)
       = ((Vec4 0 0 0 0, 1) # replicate k emptyBucket, True)"
  by (simp add: emptyBucket_def)

lemma bump_replicate_other:
  "xyz m \<noteq> xyz (Vec4 0 0 0 0) \<Longrightarrow>
     bumpBucket m (replicate k emptyBucket) = (replicate k emptyBucket, False)"
  by (induction k) (simp_all add: emptyBucket_def)

lemma insert_append:
  "\<forall>cb \<in> set F. snd cb \<noteq> 0 \<Longrightarrow> insertBucket m (F @ R) = F @ insertBucket m R"
  by (induction F) auto

lemma insert_full: "\<forall>cb \<in> set F. snd cb \<noteq> 0 \<Longrightarrow> insertBucket m F = F"
  using insert_append [of F m "[]"] by simp

lemma insert_replicate:
  "insertBucket m (replicate (Suc k) emptyBucket) = (m, 1) # replicate k emptyBucket"
  by (simp add: emptyBucket_def)

text \<open>One tally step on a bucket array whose first buckets are in use.\<close>

lemma tally_hit:
  "snd (bumpBucket m F) \<Longrightarrow> tallyColor m (F @ R) = fst (bumpBucket m F) @ R"
  by (simp add: tallyColor_def bump_append_hit)

lemma tally_full:
  "\<not> snd (bumpBucket m F) \<Longrightarrow> \<forall>cb \<in> set F. snd cb \<noteq> 0 \<Longrightarrow> tallyColor m F = F"
  by (simp add: tallyColor_def split_beta bump_miss_id insert_full)

lemma tally_new:
  assumes "\<not> snd (bumpBucket m F)" and "\<forall>cb \<in> set F. snd cb \<noteq> 0"
  shows "\<exists>c. xyz c = xyz m \<and>
           tallyColor m (F @ replicate (Suc k) emptyBucket) = F @ (c, 1) # replicate k emptyBucket"
proof (cases "xyz m = xyz (Vec4 0 0 0 0)")
  case True
  then have "tallyColor m (F @ replicate (Suc k) emptyBucket)
               = F @ (Vec4 0 0 0 0, 1) # replicate k emptyBucket"
    using assms(1)
    by (simp only: tallyColor_def bump_append_miss bump_replicate_black Let_def split_conv fst_conv
        snd_conv simp_thms if_False)
  with True show ?thesis by metis
next
  case False
  then have "tallyColor m (F @ replicate (Suc k) emptyBucket)
               = F @ (m, 1) # replicate k emptyBucket"
    using assms
    by (simp only: tallyColor_def bump_append_miss bump_replicate_other Let_def split_conv fst_conv
        snd_conv simp_thms if_True append_assoc insert_append insert_replicate)
  then show ?thesis by metis
qed


lemma encounterOrder_snoc:
  "encounterOrder (xs @ [x]) = (if x \<in> set xs then encounterOrder xs else encounterOrder xs @ [x])"
  by (simp add: encounterOrder_def)

lemma set_encounterOrder: "set (encounterOrder xs) = set xs"
  by (simp add: encounterOrder_def)

lemma distinct_encounterOrder: "distinct (encounterOrder xs)"
  by (simp add: encounterOrder_def)

lemma count_list_snoc: "count_list (xs @ [x]) y = count_list xs y + (if x = y then 1 else 0)"
  by (induction xs) auto

lemma tallied_nonzero:
  assumes "tallied e xs F" and "cb \<in> set F"
  shows "snd cb \<noteq> 0"
proof -
  from assms have "bucketKey cb \<in> set (take e (encounterOrder (map xyz xs)))"
    by (metis tallied_def imageI set_map)
  then have "bucketKey cb \<in> set (map xyz xs)"
    using set_encounterOrder [of "map xyz xs"] by (metis in_set_takeD)
  then have "count_list (map xyz xs) (bucketKey cb) \<noteq> 0"
    by (metis count_list_0_iff)
  with assms show ?thesis by (simp add: tallied_def)
qed

lemma tallied_step:
  assumes t: "tallied e xs F"
  shows "\<exists>F'. tallied e (xs @ [m]) F'"
proof -
  let ?ks = "map xyz xs"
  let ?k = "xyz m"
  from t have st: "fold tallyColor xs (replicate e emptyBucket) = F @ replicate (e - length F) emptyBucket"
    and keys: "map bucketKey F = take e (encounterOrder ?ks)"
    and cnt: "\<forall>cb \<in> set F. snd cb = real (count_list ?ks (bucketKey cb))"
    by (simp_all add: tallied_def)
  have nz: "\<forall>cb \<in> set F. snd cb \<noteq> 0"
    using t tallied_nonzero by blast
  have dist: "distinct (map bucketKey F)"
    by (simp add: keys distinct_encounterOrder)
  have len: "length F \<le> e"
    using keys by (metis length_map length_take min.cobounded2)
  have step: "fold tallyColor (xs @ [m]) (replicate e emptyBucket)
                = tallyColor m (F @ replicate (e - length F) emptyBucket)"
    by (simp add: st)
  show ?thesis
  proof (cases "?k \<in> bucketKey ` set F")
    case True
    let ?F' = "map (\<lambda>cb. if bucketKey cb = ?k then (fst cb, snd cb + 1) else cb) F"
    from True have hit: "snd (bumpBucket m F)" by (simp add: bump_snd)
    have F': "fst (bumpBucket m F) = ?F'" by (rule bump_hit_map [OF dist])
    have 1: "fold tallyColor (xs @ [m]) (replicate e emptyBucket)
               = ?F' @ replicate (e - length ?F') emptyBucket"
      by (simp only: step tally_hit [OF hit] F' length_map)
    have kin: "?k \<in> set ?ks"
    proof -
      from True have "?k \<in> set (take e (encounterOrder ?ks))"
        by (metis keys set_map)
      then show ?thesis
        using set_encounterOrder [of ?ks] by (metis in_set_takeD)
    qed
    have k': "map bucketKey ?F' = map bucketKey F"
      by (simp add: bucketKey_def comp_def)
    have e2: "take e (encounterOrder (map xyz (xs @ [m]))) = take e (encounterOrder ?ks)"
      using kin by (simp add: encounterOrder_snoc)
    have 2: "map bucketKey ?F' = take e (encounterOrder (map xyz (xs @ [m])))"
      by (simp only: k' keys e2)
    have 3: "\<forall>cb \<in> set ?F'. snd cb = real (count_list (map xyz (xs @ [m])) (bucketKey cb))"
      using cnt by (auto simp: count_list_snoc bucketKey_def)
    from 1 2 3 have "tallied e (xs @ [m]) ?F'" by (simp only: tallied_def simp_thms)
    then show ?thesis ..
  next
    case False
    then have miss: "\<not> snd (bumpBucket m F)" by (simp add: bump_snd)
    have other: "\<forall>cb \<in> set F. ?k \<noteq> bucketKey cb"
      using False by (metis imageI)
    have cnt': "\<forall>cb \<in> set F. snd cb = real (count_list (map xyz (xs @ [m])) (bucketKey cb))"
      using cnt other by (simp add: count_list_snoc)
    show ?thesis
    proof (cases "length F < e")
      case True
      then obtain j where j: "e - length F = Suc j" by (metis Suc_diff_Suc)
      from tally_new [OF miss nz, of j] obtain c where c: "xyz c = ?k"
        and tl: "tallyColor m (F @ replicate (Suc j) emptyBucket) = F @ (c, 1) # replicate j emptyBucket"
        by blast
      let ?F' = "F @ [(c, 1)]"
      have j': "e - length ?F' = j" using j by simp
      have 1: "fold tallyColor (xs @ [m]) (replicate e emptyBucket)
                 = ?F' @ replicate (e - length ?F') emptyBucket"
        by (simp only: step j tl j') simp
      have all: "take e (encounterOrder ?ks) = encounterOrder ?ks"
      proof -
        have "length (take e (encounterOrder ?ks)) < e"
          using True keys by (metis length_map)
        then show ?thesis by simp
      qed
      have lenc: "length (encounterOrder ?ks) < e"
        using True keys all by (metis length_map)
      have knew: "?k \<notin> set ?ks"
        using False keys all set_encounterOrder [of ?ks] by (metis set_map)
      have 2: "map bucketKey ?F' = take e (encounterOrder (map xyz (xs @ [m])))"
        using knew lenc by (simp add: encounterOrder_snoc keys all bucketKey_def c)
      have "count_list (map xyz (xs @ [m])) ?k = 1"
        using knew by (simp add: count_list_snoc count_list_0_iff)
      then have 3: "\<forall>cb \<in> set ?F'. snd cb = real (count_list (map xyz (xs @ [m])) (bucketKey cb))"
        using cnt' by (simp add: bucketKey_def c)
      from 1 2 3 have "tallied e (xs @ [m]) ?F'" by (simp only: tallied_def simp_thms)
      then show ?thesis ..
    next
      case False
      with len have full: "length F = e" by simp
      have 1: "fold tallyColor (xs @ [m]) (replicate e emptyBucket)
                 = F @ replicate (e - length F) emptyBucket"
        by (simp only: step full tally_full [OF miss nz] diff_self_eq_0 replicate_0 append_Nil2)
      have "length (take e (encounterOrder ?ks)) = e"
        using full keys by (metis length_map)
      then have "e \<le> length (encounterOrder ?ks)" by simp
      then have 2: "map bucketKey F = take e (encounterOrder (map xyz (xs @ [m])))"
        by (simp add: encounterOrder_snoc keys)
      from 1 2 cnt' have "tallied e (xs @ [m]) F" by (simp only: tallied_def simp_thms)
      then show ?thesis ..
    qed
  qed
qed

lemma tallied_exists: "\<exists>F. tallied e xs F"
proof (induction xs rule: rev_induct)
  case Nil
  have "tallied e [] []" by (simp add: tallied_def encounterOrder_def)
  then show ?case ..
next
  case (snoc m xs)
  then show ?case using tallied_step by blast
qed


lemma pick_fold:
  fixes F :: buckets and z0 z :: real
  assumes "fold (\<lambda>(k, u) (z, m). if u > z then (u, k) else (z, m)) F (z0, m0) = (z, m)"
  shows "z0 \<le> z \<and> (\<forall>i<length F. snd (F ! i) \<le> z)
         \<and> ((z, m) = (z0, m0)
            \<or> (\<exists>j<length F. z = snd (F ! j) \<and> m = fst (F ! j) \<and> z0 < z
                  \<and> (\<forall>i<j. snd (F ! i) < z)))"
  using assms
proof (induction F arbitrary: z0 m0)
  case Nil
  then show ?case by simp
next
  case (Cons a F)
  obtain c b where a: "a = (c, (b::real))" by (cases a)
  show ?case
  proof (cases "b > z0")
    case True
    with Cons.prems a
    have f: "fold (\<lambda>(k, u) (z, m). if u > z then (u, k) else (z, m)) F (b, c) = (z, m)"
      by simp
    from Cons.IH [OF f] have bz: "b \<le> z" and le: "\<forall>i<length F. snd (F ! i) \<le> z"
      and alt: "(z, m) = (b, c)
            \<or> (\<exists>j<length F. z = snd (F ! j) \<and> m = fst (F ! j) \<and> b < z
                  \<and> (\<forall>i<j. snd (F ! i) < z))"
      by blast+
    have 1: "z0 \<le> z" using True bz by simp
    have 2: "\<forall>i<length (a # F). snd ((a # F) ! i) \<le> z"
      using le bz a by (auto simp: nth_Cons split: nat.splits)
    from alt have 3: "\<exists>j<length (a # F). z = snd ((a # F) ! j) \<and> m = fst ((a # F) ! j) \<and> z0 < z
                  \<and> (\<forall>i<j. snd ((a # F) ! i) < z)"
    proof
      assume "(z, m) = (b, c)"
      with True a have "0 < length (a # F) \<and> z = snd ((a # F) ! 0) \<and> m = fst ((a # F) ! 0) \<and> z0 < z
                  \<and> (\<forall>i<0. snd ((a # F) ! i) < z)"
        by simp
      then show ?thesis by blast
    next
      assume "\<exists>j<length F. z = snd (F ! j) \<and> m = fst (F ! j) \<and> b < z \<and> (\<forall>i<j. snd (F ! i) < z)"
      then obtain j where j: "j < length F" "z = snd (F ! j)" "m = fst (F ! j)" "b < z"
        "\<forall>i<j. snd (F ! i) < z" by blast
      have "\<forall>i<Suc j. snd ((a # F) ! i) < z"
        using j a by (auto simp: nth_Cons split: nat.splits)
      with j True have "Suc j < length (a # F) \<and> z = snd ((a # F) ! Suc j)
          \<and> m = fst ((a # F) ! Suc j) \<and> z0 < z \<and> (\<forall>i<Suc j. snd ((a # F) ! i) < z)"
        by simp
      then show ?thesis by blast
    qed
    from 1 2 3 show ?thesis by blast
  next
    case False
    with Cons.prems a
    have f: "fold (\<lambda>(k, u) (z, m). if u > z then (u, k) else (z, m)) F (z0, m0) = (z, m)"
      by simp
    from Cons.IH [OF f] have 1: "z0 \<le> z" and le: "\<forall>i<length F. snd (F ! i) \<le> z"
      and alt: "(z, m) = (z0, m0)
            \<or> (\<exists>j<length F. z = snd (F ! j) \<and> m = fst (F ! j) \<and> z0 < z
                  \<and> (\<forall>i<j. snd (F ! i) < z))"
      by blast+
    have bz: "b \<le> z" using False 1 by simp
    have 2: "\<forall>i<length (a # F). snd ((a # F) ! i) \<le> z"
      using le bz a by (auto simp: nth_Cons split: nat.splits)
    from alt have 3: "(z, m) = (z0, m0)
            \<or> (\<exists>j<length (a # F). z = snd ((a # F) ! j) \<and> m = fst ((a # F) ! j) \<and> z0 < z
                  \<and> (\<forall>i<j. snd ((a # F) ! i) < z))"
    proof
      assume "(z, m) = (z0, m0)"
      then show ?thesis by blast
    next
      assume "\<exists>j<length F. z = snd (F ! j) \<and> m = fst (F ! j) \<and> z0 < z \<and> (\<forall>i<j. snd (F ! i) < z)"
      then obtain j where j: "j < length F" "z = snd (F ! j)" "m = fst (F ! j)" "z0 < z"
        "\<forall>i<j. snd (F ! i) < z" by blast
      have "b < z" using False j by simp
      then have "\<forall>i<Suc j. snd ((a # F) ! i) < z"
        using j a by (auto simp: nth_Cons split: nat.splits)
      with j have "Suc j < length (a # F) \<and> z = snd ((a # F) ! Suc j)
          \<and> m = fst ((a # F) ! Suc j) \<and> z0 < z \<and> (\<forall>i<Suc j. snd ((a # F) ! i) < z)"
        by simp
      then show ?thesis by blast
    qed
    from 1 2 3 show ?thesis by blast
  qed
qed

lemma pick_fold_empty:
  "0 \<le> z \<Longrightarrow>
     fold (\<lambda>(k, u) (z, m). if u > z then (u, k) else (z, m)) (replicate n emptyBucket) (z, m) = (z, m)"
  by (induction n) (simp_all add: emptyBucket_def)

lemma pickBucket_empty: "pickBucket (replicate n emptyBucket) = (0, Vec4 0 0 0 0)"
  unfolding pickBucket_def by (rule pick_fold_empty) simp

lemma pickBucket_padded:
  assumes "F \<noteq> []" and "\<forall>cb \<in> set F. 0 < snd cb"
  shows "\<exists>j<length F. pickBucket (F @ replicate n emptyBucket) = (snd (F ! j), fst (F ! j))
           \<and> 0 < snd (F ! j)
           \<and> (\<forall>i<length F. snd (F ! i) \<le> snd (F ! j))
           \<and> (\<forall>i<j. snd (F ! i) < snd (F ! j))"
proof -
  obtain z m where zm: "fold (\<lambda>(k, u) (z, m). if u > z then (u, k) else (z, m)) F (0, Vec4 0 0 0 0) = (z, m)"
    by (cases "fold (\<lambda>(k, u) (z, m). if u > z then (u, k) else (z, m)) F (0, Vec4 0 0 0 0)")
  note p = pick_fold [OF zm]
  from assms have "0 < snd (F ! 0)" and "0 < length F" by simp_all
  moreover from p have "\<forall>i<length F. snd (F ! i) \<le> z" by blast
  ultimately have pos: "0 < z" by (metis less_le_trans)
  from p have "(z, m) = (0, Vec4 0 0 0 0)
     \<or> (\<exists>j<length F. z = snd (F ! j) \<and> m = fst (F ! j) \<and> 0 < z \<and> (\<forall>i<j. snd (F ! i) < z))"
    by blast
  with pos obtain j where j: "j < length F" "z = snd (F ! j)" "m = fst (F ! j)"
      "\<forall>i<j. snd (F ! i) < z"
    by auto
  from pos have z0: "0 \<le> z" by simp
  have "pickBucket (F @ replicate n emptyBucket) = (z, m)"
    unfolding pickBucket_def fold_append comp_def zm by (rule pick_fold_empty [OF z0])
  moreover from p have "\<forall>i<length F. snd (F ! i) \<le> z" by blast
  ultimately show ?thesis using j pos by blast
qed

lemma first_max_unique:
  fixes c :: "nat \<Rightarrow> nat"
  assumes "j < n" and "\<forall>i<n. c i \<le> c j" and "\<forall>i<j. c i < c j"
    and "j' < n" and "\<forall>i<n. c i \<le> c j'" and "\<forall>i<j'. c i < c j'"
  shows "j = j'"
proof (rule ccontr)
  assume "j \<noteq> j'"
  then consider "j < j'" | "j' < j" by linarith
  then show False
  proof cases
    case 1
    with assms(6) have "c j < c j'" by blast
    moreover from assms(2,4) have "c j' \<le> c j" by blast
    ultimately show False by simp
  next
    case 2
    with assms(3) have "c j' < c j" by blast
    moreover from assms(1,5) have "c j \<le> c j'" by blast
    ultimately show False by simp
  qed
qed

lemma colorSample_first_max:
  assumes e: "0 < e" and ne: "matchedColors img bw sz gc gr u f rank fc \<noteq> []"
  shows "\<exists>j<length (take e (encounterOrder (map xyz (matchedColors img bw sz gc gr u f rank fc)))).
           colorSampleShader e u f img bw sz gc gr rank fc
             = Vec4 (fst (take e (encounterOrder (map xyz (matchedColors img bw sz gc gr u f rank fc))) ! j))
                    (fst (snd (take e (encounterOrder (map xyz (matchedColors img bw sz gc gr u f rank fc))) ! j)))
                    (snd (snd (take e (encounterOrder (map xyz (matchedColors img bw sz gc gr u f rank fc))) ! j)))
                    1
           \<and> (\<forall>i<length (take e (encounterOrder (map xyz (matchedColors img bw sz gc gr u f rank fc)))).
                 count_list (map xyz (matchedColors img bw sz gc gr u f rank fc))
                   (take e (encounterOrder (map xyz (matchedColors img bw sz gc gr u f rank fc))) ! i)
                 \<le> count_list (map xyz (matchedColors img bw sz gc gr u f rank fc))
                   (take e (encounterOrder (map xyz (matchedColors img bw sz gc gr u f rank fc))) ! j))
           \<and> (\<forall>i<j.
                 count_list (map xyz (matchedColors img bw sz gc gr u f rank fc))
                   (take e (encounterOrder (map xyz (matchedColors img bw sz gc gr u f rank fc))) ! i)
                 < count_list (map xyz (matchedColors img bw sz gc gr u f rank fc))
                   (take e (encounterOrder (map xyz (matchedColors img bw sz gc gr u f rank fc))) ! j))"
proof -
  define xs where "xs = matchedColors img bw sz gc gr u f rank fc"
  define ks where "ks = map xyz xs"
  define B where "B = take e (encounterOrder ks)"
  obtain F where t: "tallied e xs F" using tallied_exists by blast
  then have st: "fold tallyColor xs (replicate e emptyBucket) = F @ replicate (e - length F) emptyBucket"
    and keys: "map bucketKey F = B"
    and cnt: "\<forall>cb \<in> set F. snd cb = real (count_list ks (bucketKey cb))"
    by (simp_all add: tallied_def B_def ks_def)
  have lenB: "length B = length F" using keys by (metis length_map)
  have "ks \<noteq> []" using ne by (simp add: ks_def xs_def)
  then have "encounterOrder ks \<noteq> []"
    using set_encounterOrder [of ks] by (metis set_empty)
  with e have "B \<noteq> []" by (simp add: B_def)
  with keys have Fne: "F \<noteq> []" by auto
  have pos: "\<forall>cb \<in> set F. 0 < snd cb"
  proof
    fix cb assume "cb \<in> set F"
    with t tallied_nonzero cnt show "0 < snd cb"
      by (metis of_nat_0_le_iff less_eq_real_def)
  qed
  from pickBucket_padded [OF Fne pos, of "e - length F"] obtain j where j: "j < length F"
    and pk: "pickBucket (F @ replicate (e - length F) emptyBucket) = (snd (F ! j), fst (F ! j))"
    and pj: "0 < snd (F ! j)"
    and mx: "\<forall>i<length F. snd (F ! i) \<le> snd (F ! j)"
    and fs: "\<forall>i<j. snd (F ! i) < snd (F ! j)"
    by blast
  have key: "\<And>i. i < length F \<Longrightarrow> bucketKey (F ! i) = B ! i"
    using keys by (metis nth_map)
  have cn: "\<And>i. i < length F \<Longrightarrow> snd (F ! i) = real (count_list ks (B ! i))"
    using cnt key by (metis nth_mem)
  have out: "colorSampleShader e u f img bw sz gc gr rank fc
               = Vec4 (vx (fst (F ! j))) (vy (fst (F ! j))) (vz (fst (F ! j))) 1"
    using pj by (simp add: colorSampleShader_eq xs_def [symmetric] st pk Let_def)
  have "xyz (fst (F ! j)) = B ! j" using key [OF j] by (simp add: bucketKey_def)
  then have o2: "colorSampleShader e u f img bw sz gc gr rank fc
                   = Vec4 (fst (B ! j)) (fst (snd (B ! j))) (snd (snd (B ! j))) 1"
    by (simp add: out xyz_def [symmetric]) (metis fst_conv snd_conv xyz_def)
  have m2: "\<forall>i<length B. count_list ks (B ! i) \<le> count_list ks (B ! j)"
    using mx cn j lenB by (metis of_nat_le_iff)
  have f2: "\<forall>i<j. count_list ks (B ! i) < count_list ks (B ! j)"
  proof (intro allI impI)
    fix i assume ij: "i < j"
    with j have "i < length F" by simp
    with fs ij cn j show "count_list ks (B ! i) < count_list ks (B ! j)"
      by (metis of_nat_less_iff)
  qed
  from j lenB o2 m2 f2 have "\<exists>j<length B.
      colorSampleShader e u f img bw sz gc gr rank fc
        = Vec4 (fst (B ! j)) (fst (snd (B ! j))) (snd (snd (B ! j))) 1
      \<and> (\<forall>i<length B. count_list ks (B ! i) \<le> count_list ks (B ! j))
      \<and> (\<forall>i<j. count_list ks (B ! i) < count_list ks (B ! j))"
    by metis
  then show ?thesis
    unfolding B_def ks_def xs_def .
qed

lemma matchedColors_empty_iff:
  "matchedColors img bw sz gc gr u f rank fc = [] \<longleftrightarrow>
     (\<forall>s<u. \<forall>g<f. \<not> rankMatches rank (texture2D bw
         (sampleCoord (cellPixelOrigin sz gc gr fc) (cellPixelSize sz gc gr) sz u f (s, g))))"
  by (auto simp: matchedColors_def subSamples_def filter_empty_conv)

lemma rankMatches_1: "rankMatches 1 d \<longleftrightarrow> \<not> vx d < 1 / 2"
  by (simp add: rankMatches_def stepf_def)

lemma rankMatches_2: "rankMatches 2 d \<longleftrightarrow> vx d < 1 / 2"
  by (simp add: rankMatches_def stepf_def)

lemma colorSample_no_match:
  "matchedColors img bw sz gc gr u f rank fc = [] \<Longrightarrow>
     colorSampleShader e u f img bw sz gc gr rank fc
       = (if rank = 2
          then Vec4 (vx (texture2D img (cellCenter sz gc gr fc)))
                    (vy (texture2D img (cellCenter sz gc gr fc)))
                    (vz (texture2D img (cellCenter sz gc gr fc))) 1
          else Vec4 0 0 0 1)"
  by (simp add: colorSampleShader_eq pickBucket_empty Let_def)

lemma cellCenter_explicit:
  assumes "fst sz \<noteq> 0" and "snd sz \<noteq> 0"
  shows "cellCenter sz gc gr fc
           = ((floorf (fst fc) + 1 / 2) / of_int gc, (floorf (snd fc) + 1 / 2) / of_int gr)"
proof -
  have e: "(c * (w / n) + w / n * h) / w = (c + h) / n" if "w \<noteq> 0" for c w n h :: real
    using that by (simp add: field_simps add_divide_distrib)
  show ?thesis
    unfolding cellCenter_def cellPixelOrigin_def cellPixelSize_def Let_def fst_conv snd_conv
      e [OF assms(1)] e [OF assms(2)]
    by simp
qed

text \<open>
  C6. When no sub-sample of the cell matches the rank, the colour sampler with rank 2 returns
  the colour of the source pixel sampled at the cell's centre (with alpha 1), and the sampler
  with rank 1 returns the zero-initialised bucket colour (with alpha 1). The centre of the
  cell in column \<open>\<lfloor>x\<rfloor>\<close> and row \<open>\<lfloor>y\<rfloor>\<close> of the fragment \<open>(x, y)\<close> is the texture coordinate
  \<open>((\<lfloor>x\<rfloor> + 1/2) / cols, (\<lfloor>y\<rfloor> + 1/2) / rows)\<close>, for an image of non-zero size. No sub-sample
  matches rank 2 when every mask sample is at least 0.5, and none matches rank 1 when every
  mask sample is below 0.5.
\<close>

theorem colorSample_no_match_fallback:
  "((\<forall>s<u. \<forall>g<f. \<not> vx (texture2D bw
         (sampleCoord (cellPixelOrigin sz gc gr fc) (cellPixelSize sz gc gr) sz u f (s, g))) < 1 / 2)
      \<longrightarrow> colorSampleShader e u f img bw sz gc gr 2 fc
            = Vec4 (vx (texture2D img (cellCenter sz gc gr fc)))
                   (vy (texture2D img (cellCenter sz gc gr fc)))
                   (vz (texture2D img (cellCenter sz gc gr fc))) 1)
   \<and> (fst sz \<noteq> 0 \<and> snd sz \<noteq> 0 \<longrightarrow>
        cellCenter sz gc gr fc
          = ((floorf (fst fc) + 1 / 2) / of_int gc, (floorf (snd fc) + 1 / 2) / of_int gr))
   \<and> ((\<forall>s<u. \<forall>g<f. \<not> vx (texture2D bw
         (sampleCoord (cellPixelOrigin sz gc gr fc) (cellPixelSize sz gc gr) sz u f (s, g))) < 1 / 2)
        \<and> fst sz \<noteq> 0 \<and> snd sz \<noteq> 0
      \<longrightarrow> colorSampleShader e u f img bw sz gc gr 2 fc
            = Vec4 (vx (texture2D img ((floorf (fst fc) + 1 / 2) / of_int gc,
                                       (floorf (snd fc) + 1 / 2) / of_int gr)))
                   (vy (texture2D img ((floorf (fst fc) + 1 / 2) / of_int gc,
                                       (floorf (snd fc) + 1 / 2) / of_int gr)))
                   (vz (texture2D img ((floorf (fst fc) + 1 / 2) / of_int gc,
                                       (floorf (snd fc) + 1 / 2) / of_int gr))) 1)
   \<and> ((\<forall>s<u. \<forall>g<f. vx (texture2D bw
         (sampleCoord (cellPixelOrigin sz gc gr fc) (cellPixelSize sz gc gr) sz u f (s, g))) < 1 / 2)
      \<longrightarrow> colorSampleShader e u f img bw sz gc gr 1 fc = Vec4 0 0 0 1)"
proof -
  have 2: "(\<forall>s<u. \<forall>g<f. \<not> vx (texture2D bw
         (sampleCoord (cellPixelOrigin sz gc gr fc) (cellPixelSize sz gc gr) sz u f (s, g))) < 1 / 2)
      \<longrightarrow> matchedColors img bw sz gc gr u f 2 fc = []"
    by (simp add: matchedColors_empty_iff rankMatches_2)
  have 1: "(\<forall>s<u. \<forall>g<f. vx (texture2D bw
         (sampleCoord (cellPixelOrigin sz gc gr fc) (cellPixelSize sz gc gr) sz u f (s, g))) < 1 / 2)
      \<longrightarrow> matchedColors img bw sz gc gr u f 1 fc = []"
    by (simp add: matchedColors_empty_iff rankMatches_1)
  have a: "(\<forall>s<u. \<forall>g<f. \<not> vx (texture2D bw
         (sampleCoord (cellPixelOrigin sz gc gr fc) (cellPixelSize sz gc gr) sz u f (s, g))) < 1 / 2)
      \<longrightarrow> colorSampleShader e u f img bw sz gc gr 2 fc
            = Vec4 (vx (texture2D img (cellCenter sz gc gr fc)))
                   (vy (texture2D img (cellCenter sz gc gr fc)))
                   (vz (texture2D img (cellCenter sz gc gr fc))) 1"
    using 2 colorSample_no_match [of img bw sz gc gr u f 2 fc e] by simp
  have b: "(\<forall>s<u. \<forall>g<f. vx (texture2D bw
         (sampleCoord (cellPixelOrigin sz gc gr fc) (cellPixelSize sz gc gr) sz u f (s, g))) < 1 / 2)
      \<longrightarrow> colorSampleShader e u f img bw sz gc gr 1 fc = Vec4 0 0 0 1"
    using 1 colorSample_no_match [of img bw sz gc gr u f 1 fc e] by simp
  have c: "fst sz \<noteq> 0 \<and> snd sz \<noteq> 0 \<longrightarrow>
        cellCenter sz gc gr fc
          = ((floorf (fst fc) + 1 / 2) / of_int gc, (floorf (snd fc) + 1 / 2) / of_int gr)"
    using cellCenter_explicit by blast
  from a c have d: "(\<forall>s<u. \<forall>g<f. \<not> vx (texture2D bw
         (sampleCoord (cellPixelOrigin sz gc gr fc) (cellPixelSize sz gc gr) sz u f (s, g))) < 1 / 2)
        \<and> fst sz \<noteq> 0 \<and> snd sz \<noteq> 0
      \<longrightarrow> colorSampleShader e u f img bw sz gc gr 2 fc
            = Vec4 (vx (texture2D img ((floorf (fst fc) + 1 / 2) / of_int gc,
                                       (floorf (snd fc) + 1 / 2) / of_int gr)))
                   (vy (texture2D img ((floorf (fst fc) + 1 / 2) / of_int gc,
                                       (floorf (snd fc) + 1 / 2) / of_int gr)))
                   (vz (texture2D img ((floorf (fst fc) + 1 / 2) / of_int gc,
                                       (floorf (snd fc) + 1 / 2) / of_int gr))) 1"
    by metis
  from a b c d show ?thesis by (simp only: simp_thms)
qed

text \<open>
  Over the checkerboard: rank 2 under an all-white mask (no sample below 0.5) returns the
  centre's red for the single cell of a 1 by 1 grid, and the blue at (3/4, 1/4) for the cell
  in column 1 and row 0 of a 2 by 2 grid; rank 1 under an all-zero mask (every sample below
  0.5) returns black.
\<close>

theorem colorSample_no_match_fallback_witness:
  "colorSampleShader 16 2 2 checkerImage opaqueWhite (2, 2) 1 1 2 (1/2, 1/2) = Vec4 1 0 0 1
   \<and> colorSampleShader 16 1 1 checkerImage opaqueWhite (2, 2) 2 2 2 (3/2, 1/2) = Vec4 0 0 1 1
   \<and> cellCenter (2, 2) 2 2 (3/2, 1/2) = (3/4, 1/4)
   \<and> colorSampleShader 16 2 2 checkerImage clearTexture (2, 2) 1 1 1 (1/2, 1/2) = Vec4 0 0 0 1"
proof -
  have w: "\<forall>s<2. \<forall>g<2. \<not> vx (texture2D opaqueWhite
         (sampleCoord (cellPixelOrigin (2, 2) 1 1 (1/2, 1/2)) (cellPixelSize (2, 2) 1 1) (2, 2) 2 2 (s, g)))
         < 1 / 2"
    by (simp add: texture2D_def opaqueWhite_def)
  have w1: "\<forall>s<1. \<forall>g<1. \<not> vx (texture2D opaqueWhite
         (sampleCoord (cellPixelOrigin (2, 2) 2 2 (3/2, 1/2)) (cellPixelSize (2, 2) 2 2) (2, 2) 1 1 (s, g)))
         < 1 / 2"
    by (simp add: texture2D_def opaqueWhite_def)
  have c: "\<forall>s<2. \<forall>g<2. vx (texture2D clearTexture
         (sampleCoord (cellPixelOrigin (2, 2) 1 1 (1/2, 1/2)) (cellPixelSize (2, 2) 1 1) (2, 2) 2 2 (s, g)))
         < 1 / 2"
    by (simp add: texture2D_def clearTexture_def)
  have nz: "fst (2::real, 2::real) \<noteq> 0 \<and> snd (2::real, 2::real) \<noteq> 0" by simp
  note t1 = colorSample_no_match_fallback [where u = 2 and f = 2 and bw = opaqueWhite
      and sz = "(2, 2)" and gc = 1 and gr = 1 and fc = "(1/2, 1/2)" and e = 16 and img = checkerImage]
  note t2 = colorSample_no_match_fallback [where u = 1 and f = 1 and bw = opaqueWhite
      and sz = "(2, 2)" and gc = 2 and gr = 2 and fc = "(3/2, 1/2)" and e = 16 and img = checkerImage]
  note t3 = colorSample_no_match_fallback [where u = 2 and f = 2 and bw = clearTexture
      and sz = "(2, 2)" and gc = 1 and gr = 1 and fc = "(1/2, 1/2)" and e = 16 and img = checkerImage]
  have a1: "colorSampleShader 16 2 2 checkerImage opaqueWhite (2, 2) 1 1 2 (1/2, 1/2) = Vec4 1 0 0 1"
    using t1 w nz by (simp add: texture2D_def checkerImage_def floorf_def)
  have a2: "colorSampleShader 16 1 1 checkerImage opaqueWhite (2, 2) 2 2 2 (3/2, 1/2) = Vec4 0 0 1 1"
    using t2 w1 nz by (simp add: texture2D_def checkerImage_def floorf_def)
  have a3: "cellCenter (2, 2) 2 2 (3/2, 1/2) = (3/4, 1/4)"
    using t2 nz by (simp add: floorf_def)
  have a4: "colorSampleShader 16 2 2 checkerImage clearTexture (2, 2) 1 1 1 (1/2, 1/2) = Vec4 0 0 0 1"
    using t3 c by simp
  from a1 a2 a3 a4 show ?thesis by simp
qed

text \<open>
  C5 (amended). The tally loop gives a bucket to the first \<open>e\<close> distinct colours in traversal
  order (to every matching colour when the cell has at most \<open>e\<close> of them) and counts no other
  colour. In a cell with at least one matching sub-sample, the colour returned is one of the
  colours that hold a bucket, its tally is maximal among them, and every such colour
  encountered before it has a strictly smaller tally: among the bucketed colours of equal
  maximal tally the first encountered is returned. The output is determined by the sequence
  of matching colours: two runs that sample the same sequence return the same output.
\<close>


theorem colorSample_tie_first_encountered:
  assumes "0 < e" and "matchedColors img bw sz gc gr u f rank fc \<noteq> []"
  shows "let ks = map xyz (matchedColors img bw sz gc gr u f rank fc);
             B = take e (encounterOrder ks)
         in (\<exists>j<length B.
               xyz (colorSampleShader e u f img bw sz gc gr rank fc) = B ! j
               \<and> vw (colorSampleShader e u f img bw sz gc gr rank fc) = 1
               \<and> (\<forall>i<length B. count_list ks (B ! i) \<le> count_list ks (B ! j))
               \<and> (\<forall>i<j. count_list ks (B ! i) < count_list ks (B ! j)))
            \<and> (card (set ks) \<le> e \<longrightarrow> set B = set ks)
            \<and> (map xyz (matchedColors img' bw' sz' gc' gr' u' f' rank' fc') = ks
                 \<longrightarrow> colorSampleShader e u' f' img' bw' sz' gc' gr' rank' fc'
                       = colorSampleShader e u f img bw sz gc gr rank fc)"
proof -
  define ks where "ks = map xyz (matchedColors img bw sz gc gr u f rank fc)"
  define B where "B = take e (encounterOrder ks)"
  define c where "c = (\<lambda>i. count_list ks (B ! i))"
  from colorSample_first_max [OF assms]
  obtain j where j: "j < length B"
    and o: "colorSampleShader e u f img bw sz gc gr rank fc
              = Vec4 (fst (B ! j)) (fst (snd (B ! j))) (snd (snd (B ! j))) 1"
    and mx: "\<forall>i<length B. c i \<le> c j"
    and fs: "\<forall>i<j. c i < c j"
    unfolding B_def ks_def c_def by blast
  have x: "xyz (colorSampleShader e u f img bw sz gc gr rank fc) = B ! j"
    by (simp add: o xyz_def)
  have a: "vw (colorSampleShader e u f img bw sz gc gr rank fc) = 1"
    by (simp add: o)
  have d: "colorSampleShader e u' f' img' bw' sz' gc' gr' rank' fc'
             = colorSampleShader e u f img bw sz gc gr rank fc"
    if eq: "map xyz (matchedColors img' bw' sz' gc' gr' u' f' rank' fc') = ks"
  proof -
    from assms(2) eq have ne: "matchedColors img' bw' sz' gc' gr' u' f' rank' fc' \<noteq> []"
      by (auto simp: ks_def)
    from colorSample_first_max [OF assms(1) ne]
    obtain j' where j': "j' < length B"
      and o': "colorSampleShader e u' f' img' bw' sz' gc' gr' rank' fc'
              = Vec4 (fst (B ! j')) (fst (snd (B ! j'))) (snd (snd (B ! j'))) 1"
      and mx': "\<forall>i<length B. c i \<le> c j'"
      and fs': "\<forall>i<j'. c i < c j'"
      unfolding eq B_def c_def by blast
    have "j = j'"
      by (rule first_max_unique [OF j mx fs j' mx' fs'])
    with o o' show ?thesis by simp
  qed
  have all: "set B = set ks" if "card (set ks) \<le> e"
  proof -
    have "length (encounterOrder ks) = card (set ks)"
      using distinct_encounterOrder [of ks] set_encounterOrder [of ks]
      by (metis distinct_card)
    with that have "B = encounterOrder ks" by (simp add: B_def)
    then show ?thesis by (simp add: set_encounterOrder)
  qed
  from j x a mx fs d all show ?thesis
    unfolding Let_def ks_def [symmetric] B_def [symmetric] c_def by blast
qed

text \<open>
  The four samples of the checkerboard are red, blue, blue, red: a tie of two against two, and
  red, encountered first, is returned.
\<close>

theorem colorSample_tie_first_encountered_witness:
  "(0::nat) < 16
   \<and> matchedColors checkerImage opaqueWhite (2, 2) 1 1 2 2 1 (1/2, 1/2)
       = [Vec4 1 0 0 1, Vec4 0 0 1 1, Vec4 0 0 1 1, Vec4 1 0 0 1]
   \<and> xyz (colorSampleShader 16 2 2 checkerImage opaqueWhite (2, 2) 1 1 1 (1/2, 1/2)) = (1, 0, 0)"
proof -
  have e: "(0::nat) < 16" by simp
  have m: "matchedColors checkerImage opaqueWhite (2, 2) 1 1 2 2 1 (1/2, 1/2)
       = [Vec4 1 0 0 1, Vec4 0 0 1 1, Vec4 0 0 1 1, Vec4 1 0 0 1]"
    by (simp add: matchedColors_def subSamples_def rankMatches_def stepf_def texture2D_def
        opaqueWhite_def checkerImage_def sampleCoord_def cellPixelOrigin_def cellPixelSize_def
        clampf_def floorf_def upt_rec numeral_2_eq_2)
  then have ne: "matchedColors checkerImage opaqueWhite (2, 2) 1 1 2 2 1 (1/2, 1/2) \<noteq> []"
    by simp
  have B: "take 16 (encounterOrder (map xyz [Vec4 1 0 0 1, Vec4 0 0 1 1, Vec4 0 0 1 1, Vec4 1 0 0 1]))
             = [(1, 0, 0), (0, 0, 1)]"
    by (simp add: encounterOrder_def xyz_def)
  note t = colorSample_tie_first_encountered [OF e ne, unfolded Let_def m B]
  from t obtain j where j: "j < length [(1::real, 0::real, 0::real), (0, 0, 1)]"
    and x: "xyz (colorSampleShader 16 2 2 checkerImage opaqueWhite (2, 2) 1 1 1 (1/2, 1/2))
              = [(1, 0, 0), (0, 0, 1)] ! j"
    and fs: "\<forall>i<j. count_list (map xyz [Vec4 1 0 0 1, Vec4 0 0 1 1, Vec4 0 0 1 1, Vec4 1 0 0 1])
                        ([(1, 0, 0), (0, 0, 1)] ! i)
                    < count_list (map xyz [Vec4 1 0 0 1, Vec4 0 0 1 1, Vec4 0 0 1 1, Vec4 1 0 0 1])
                        ([(1::real, 0::real, 0::real), (0, 0, 1)] ! j)"
    by blast
  have "j = 0"
  proof (rule ccontr)
    assume "j \<noteq> 0"
    with j have j1: "j = 1" by simp
    from fs have "count_list (map xyz [Vec4 1 0 0 1, Vec4 0 0 1 1, Vec4 0 0 1 1, Vec4 1 0 0 1])
                        ([(1, 0, 0), (0, 0, 1)] ! 0)
                    < count_list (map xyz [Vec4 1 0 0 1, Vec4 0 0 1 1, Vec4 0 0 1 1, Vec4 1 0 0 1])
                        ([(1::real, 0::real, 0::real), (0, 0, 1)] ! 1)"
      unfolding j1 by blast
    then show False by (simp add: xyz_def)
  qed
  with x e m show ?thesis by simp
qed

text \<open>
  C5 as stated fails beyond the bucket capacity: the cell's twenty samples are sixteen
  distinct reds followed by green, blue, green, blue. Green and blue occur twice each, every
  red once; the sixteen reds fill the buckets, green and blue are never counted, and the
  first red is returned.
\<close>

lemma manyColor_matched:
  "matchedColors manyColorImage opaqueWhite (20, 1) 1 1 20 1 1 (1/2, 1/2)
     = [Vec4 (1 / 255) 0 0 1, Vec4 (2 / 255) 0 0 1, Vec4 (3 / 255) 0 0 1,
        Vec4 (4 / 255) 0 0 1, Vec4 (5 / 255) 0 0 1, Vec4 (6 / 255) 0 0 1,
        Vec4 (7 / 255) 0 0 1, Vec4 (8 / 255) 0 0 1, Vec4 (9 / 255) 0 0 1,
        Vec4 (10 / 255) 0 0 1, Vec4 (11 / 255) 0 0 1, Vec4 (12 / 255) 0 0 1,
        Vec4 (13 / 255) 0 0 1, Vec4 (14 / 255) 0 0 1, Vec4 (15 / 255) 0 0 1,
        Vec4 (16 / 255) 0 0 1, Vec4 0 1 0 1, Vec4 0 0 1 1, Vec4 0 1 0 1, Vec4 0 0 1 1]"
  by (simp add: matchedColors_def subSamples_def rankMatches_def stepf_def texture2D_def
      opaqueWhite_def manyColorImage_def sampleCoord_def cellPixelOrigin_def cellPixelSize_def
      clampf_def floorf_def upt_rec)

lemma manyColor_buckets:
  "take 16 (encounterOrder (map xyz
       [Vec4 (1 / 255) 0 0 1, Vec4 (2 / 255) 0 0 1, Vec4 (3 / 255) 0 0 1,
        Vec4 (4 / 255) 0 0 1, Vec4 (5 / 255) 0 0 1, Vec4 (6 / 255) 0 0 1,
        Vec4 (7 / 255) 0 0 1, Vec4 (8 / 255) 0 0 1, Vec4 (9 / 255) 0 0 1,
        Vec4 (10 / 255) 0 0 1, Vec4 (11 / 255) 0 0 1, Vec4 (12 / 255) 0 0 1,
        Vec4 (13 / 255) 0 0 1, Vec4 (14 / 255) 0 0 1, Vec4 (15 / 255) 0 0 1,
        Vec4 (16 / 255) 0 0 1, Vec4 0 1 0 1, Vec4 0 0 1 1, Vec4 0 1 0 1, Vec4 0 0 1 1]))
     = [(1 / 255, 0, 0), (2 / 255, 0, 0), (3 / 255, 0, 0), (4 / 255, 0, 0),
        (5 / 255, 0, 0), (6 / 255, 0, 0), (7 / 255, 0, 0), (8 / 255, 0, 0),
        (9 / 255, 0, 0), (10 / 255, 0, 0), (11 / 255, 0, 0), (12 / 255, 0, 0),
        (13 / 255, 0, 0), (14 / 255, 0, 0), (15 / 255, 0, 0), (16 / 255, 0, 0)]"
  by (simp add: encounterOrder_def xyz_def)

lemma manyColor_bucket_counts:
  "\<forall>c \<in> set [(1 / 255, 0, 0), (2 / 255, 0, 0), (3 / 255, 0, 0), (4 / 255, 0, 0),
        (5 / 255, 0, 0), (6 / 255, 0, 0), (7 / 255, 0, 0), (8 / 255, 0, 0),
        (9 / 255, 0, 0), (10 / 255, 0, 0), (11 / 255, 0, 0), (12 / 255, 0, 0),
        (13 / 255, 0, 0), (14 / 255, 0, 0), (15 / 255, 0, 0), (16 / 255, 0, 0)].
      count_list (map xyz
       [Vec4 (1 / 255) 0 0 1, Vec4 (2 / 255) 0 0 1, Vec4 (3 / 255) 0 0 1,
        Vec4 (4 / 255) 0 0 1, Vec4 (5 / 255) 0 0 1, Vec4 (6 / 255) 0 0 1,
        Vec4 (7 / 255) 0 0 1, Vec4 (8 / 255) 0 0 1, Vec4 (9 / 255) 0 0 1,
        Vec4 (10 / 255) 0 0 1, Vec4 (11 / 255) 0 0 1, Vec4 (12 / 255) 0 0 1,
        Vec4 (13 / 255) 0 0 1, Vec4 (14 / 255) 0 0 1, Vec4 (15 / 255) 0 0 1,
        Vec4 (16 / 255) 0 0 1, Vec4 0 1 0 1, Vec4 0 0 1 1, Vec4 0 1 0 1, Vec4 0 0 1 1]) c = 1"
  by (simp add: xyz_def)

theorem colorSample_bucket_cap_counterexample:
  "matchedColors manyColorImage opaqueWhite (20, 1) 1 1 20 1 1 (1/2, 1/2)
     = [Vec4 (1 / 255) 0 0 1, Vec4 (2 / 255) 0 0 1, Vec4 (3 / 255) 0 0 1,
        Vec4 (4 / 255) 0 0 1, Vec4 (5 / 255) 0 0 1, Vec4 (6 / 255) 0 0 1,
        Vec4 (7 / 255) 0 0 1, Vec4 (8 / 255) 0 0 1, Vec4 (9 / 255) 0 0 1,
        Vec4 (10 / 255) 0 0 1, Vec4 (11 / 255) 0 0 1, Vec4 (12 / 255) 0 0 1,
        Vec4 (13 / 255) 0 0 1, Vec4 (14 / 255) 0 0 1, Vec4 (15 / 255) 0 0 1,
        Vec4 (16 / 255) 0 0 1, Vec4 0 1 0 1, Vec4 0 0 1 1, Vec4 0 1 0 1, Vec4 0 0 1 1]
   \<and> count_list (map xyz (matchedColors manyColorImage opaqueWhite (20, 1) 1 1 20 1 1 (1/2, 1/2))) (0, 1, 0) = 2
   \<and> count_list (map xyz (matchedColors manyColorImage opaqueWhite (20, 1) 1 1 20 1 1 (1/2, 1/2))) (0, 0, 1) = 2
   \<and> count_list (map xyz (matchedColors manyColorImage opaqueWhite (20, 1) 1 1 20 1 1 (1/2, 1/2))) (1 / 255, 0, 0) = 1
   \<and> colorSampleShader 16 20 1 manyColorImage opaqueWhite (20, 1) 1 1 1 (1/2, 1/2)
       = Vec4 (1 / 255) 0 0 1"
proof -
  let ?B = "[(1 / 255, 0, 0), (2 / 255, 0, 0), (3 / 255, 0, 0), (4 / 255, 0, 0),
        (5 / 255, 0, 0), (6 / 255, 0, 0), (7 / 255, 0, 0), (8 / 255, 0, 0),
        (9 / 255, 0, 0), (10 / 255, 0, 0), (11 / 255, 0, 0), (12 / 255, 0, 0),
        (13 / 255, 0, 0), (14 / 255, 0, 0), (15 / 255, 0, 0), (16 / 255, 0, 0)] :: vec3 list"
  let ?ks = "map xyz
       [Vec4 (1 / 255) 0 0 1, Vec4 (2 / 255) 0 0 1, Vec4 (3 / 255) 0 0 1,
        Vec4 (4 / 255) 0 0 1, Vec4 (5 / 255) 0 0 1, Vec4 (6 / 255) 0 0 1,
        Vec4 (7 / 255) 0 0 1, Vec4 (8 / 255) 0 0 1, Vec4 (9 / 255) 0 0 1,
        Vec4 (10 / 255) 0 0 1, Vec4 (11 / 255) 0 0 1, Vec4 (12 / 255) 0 0 1,
        Vec4 (13 / 255) 0 0 1, Vec4 (14 / 255) 0 0 1, Vec4 (15 / 255) 0 0 1,
        Vec4 (16 / 255) 0 0 1, Vec4 0 1 0 1, Vec4 0 0 1 1, Vec4 0 1 0 1, Vec4 0 0 1 1]"
  have e: "(0::nat) < 16" by simp
  have ne: "matchedColors manyColorImage opaqueWhite (20, 1) 1 1 20 1 1 (1/2, 1/2) \<noteq> []"
    by (simp only: manyColor_matched) simp
  note t = colorSample_first_max [OF e ne, unfolded manyColor_matched manyColor_buckets]
  from t obtain j where j: "j < length ?B"
    and o: "colorSampleShader 16 20 1 manyColorImage opaqueWhite (20, 1) 1 1 1 (1/2, 1/2)
              = Vec4 (fst (?B ! j)) (fst (snd (?B ! j))) (snd (snd (?B ! j))) 1"
    and fs: "\<forall>i<j. count_list ?ks (?B ! i) < count_list ?ks (?B ! j)"
    by blast
  have one: "\<And>i. i < length ?B \<Longrightarrow> count_list ?ks (?B ! i) = 1"
    using manyColor_bucket_counts by (metis nth_mem)
  have "j = 0"
  proof (rule ccontr)
    assume n: "j \<noteq> 0"
    with fs have "count_list ?ks (?B ! 0) < count_list ?ks (?B ! j)" by blast
    moreover have "count_list ?ks (?B ! 0) = 1" by (rule one) simp
    moreover have "count_list ?ks (?B ! j) = 1" by (rule one) (rule j)
    ultimately show False by simp
  qed
  with o have out: "colorSampleShader 16 20 1 manyColorImage opaqueWhite (20, 1) 1 1 1 (1/2, 1/2)
       = Vec4 (1 / 255) 0 0 1"
    by simp
  have c1: "count_list ?ks (0, 1, 0) = 2" by (simp add: xyz_def)
  have c2: "count_list ?ks (0, 0, 1) = 2" by (simp add: xyz_def)
  have c3: "count_list ?ks (1 / 255, 0, 0) = 1" by (simp add: xyz_def)
  from out c1 c2 c3 show ?thesis
    by (simp only: manyColor_matched simp_thms)
qed

section \<open>Character matcher: transparent cells\<close>

lemma fold_flag_inner:
  "fold (\<lambda>x s. if \<not> s then s else let i = h x in if Q i then False else s) xs s0
     \<longleftrightarrow> s0 \<and> (\<forall>x \<in> set xs. \<not> Q (h x))"
  by (induction xs arbitrary: s0) (simp_all add: Let_def)

lemma fold_flag_outer:
  assumes "\<And>u. G u True \<longleftrightarrow> R u"
  shows "fold (\<lambda>u s. if \<not> s then s else G u s) xs s0 \<longleftrightarrow> s0 \<and> (\<forall>u \<in> set xs. R u)"
proof (induction xs arbitrary: s0)
  case Nil
  then show ?case by simp
next
  case (Cons a xs)
  show ?case
  proof (cases s0)
    case True
    then show ?thesis by (simp add: Cons.IH assms)
  next
    case False
    then show ?thesis by (simp add: Cons.IH)
  qed
qed

lemma cellTransparent_iff:
  "cellTransparent t sk e v
     \<longleftrightarrow> (\<forall>u<t. \<forall>f<t. \<not> vw (texture2D sk (offsetCoord e (subPos t (u, f)) v)) > 0)"
proof -
  have "cellTransparent t sk e v
     \<longleftrightarrow> True \<and> (\<forall>u \<in> set [0..<t]. \<forall>f \<in> set [0..<t].
            \<not> vw (texture2D sk (offsetCoord e (subPos t (u, f)) v)) > 0)"
    unfolding cellTransparent_def
    by (rule fold_flag_outer) (simp only: fold_flag_inner simp_thms)
  then show ?thesis by (simp add: Ball_def)
qed

lemma vw_encodeGlyph: "vw (encodeGlyph g) = 1"
  by (simp add: encodeGlyph_def Let_def)

text \<open>
  C4. When every sub-sample of the cell has alpha zero, the character matcher outputs the
  all-zero colour with zero alpha, whatever the palette and the glyph atlas are (no glyph is
  compared); when some sub-sample has positive alpha, the output's alpha is 1.
\<close>

theorem characterSelection_transparent_sentinel:
  "((\<forall>u<t. \<forall>f<t. vw (texture2D sk (offsetCoord (cellOrigin gpd gcl fc) (subPos t (u, f))
                                     (cellExtent gpd gcl fc))) = 0)
      \<longrightarrow> characterSelectionShader t ct cc cr sk gpd gcl pal ps fc = Vec4 0 0 0 0)
   \<and> ((\<exists>u<t. \<exists>f<t. vw (texture2D sk (offsetCoord (cellOrigin gpd gcl fc) (subPos t (u, f))
                                     (cellExtent gpd gcl fc))) > 0)
      \<longrightarrow> vw (characterSelectionShader t ct cc cr sk gpd gcl pal ps fc) = 1)"
proof -
  have a: "(\<forall>u<t. \<forall>f<t. vw (texture2D sk (offsetCoord (cellOrigin gpd gcl fc) (subPos t (u, f))
                                     (cellExtent gpd gcl fc))) = 0)
      \<longrightarrow> cellTransparent t sk (cellOrigin gpd gcl fc) (cellExtent gpd gcl fc)"
    by (simp add: cellTransparent_iff)
  have b: "(\<exists>u<t. \<exists>f<t. vw (texture2D sk (offsetCoord (cellOrigin gpd gcl fc) (subPos t (u, f))
                                     (cellExtent gpd gcl fc))) > 0)
      \<longrightarrow> \<not> cellTransparent t sk (cellOrigin gpd gcl fc) (cellExtent gpd gcl fc)"
    by (auto simp: cellTransparent_iff)
  have s: "cellTransparent t sk (cellOrigin gpd gcl fc) (cellExtent gpd gcl fc)
      \<Longrightarrow> characterSelectionShader t ct cc cr sk gpd gcl pal ps fc = Vec4 0 0 0 0"
    by (simp add: characterSelectionShader_def Let_def)
  have n: "\<not> cellTransparent t sk (cellOrigin gpd gcl fc) (cellExtent gpd gcl fc)
      \<Longrightarrow> vw (characterSelectionShader t ct cc cr sk gpd gcl pal ps fc) = 1"
    by (simp add: characterSelectionShader_def Let_def vw_encodeGlyph split: prod.splits)
  show ?thesis
    using a b s n by blast
qed

text \<open>A cell of the transparent texture gives the sentinel; a cell of the opaque one alpha 1.\<close>

theorem characterSelection_transparent_sentinel_witness:
  "characterSelectionShader 2 opaqueWhite 1 1 clearTexture (16, 16) (2, 2) opaqueWhite (1, 1) (1/2, 1/2)
     = Vec4 0 0 0 0
   \<and> (\<exists>u<2. \<exists>f<2. vw (texture2D opaqueWhite (offsetCoord (cellOrigin (16, 16) (2, 2) (1/2, 1/2))
                        (subPos 2 (u, f)) (cellExtent (16, 16) (2, 2) (1/2, 1/2)))) > 0)
   \<and> vw (characterSelectionShader 2 opaqueWhite 1 1 opaqueWhite (16, 16) (2, 2) opaqueWhite (1, 1) (1/2, 1/2))
       = 1"
proof -
  have c: "\<forall>u<2. \<forall>f<2. vw (texture2D clearTexture (offsetCoord (cellOrigin (16, 16) (2, 2) (1/2, 1/2))
                        (subPos 2 (u, f)) (cellExtent (16, 16) (2, 2) (1/2, 1/2)))) = 0"
    by (simp add: texture2D_def clearTexture_def)
  have "(0::nat) < 2 \<and> vw (texture2D opaqueWhite (offsetCoord (cellOrigin (16, 16) (2, 2) (1/2, 1/2))
                        (subPos 2 (0, 0)) (cellExtent (16, 16) (2, 2) (1/2, 1/2)))) > 0"
    by (simp add: texture2D_def opaqueWhite_def)
  then have o: "\<exists>u<2. \<exists>f<2. vw (texture2D opaqueWhite (offsetCoord (cellOrigin (16, 16) (2, 2) (1/2, 1/2))
                        (subPos 2 (u, f)) (cellExtent (16, 16) (2, 2) (1/2, 1/2)))) > 0"
    by blast
  show ?thesis
    using c o
      characterSelection_transparent_sentinel [of 2 clearTexture "(16, 16)" "(2, 2)" "(1/2, 1/2)"
        opaqueWhite 1 1 opaqueWhite "(1, 1)"]
      characterSelection_transparent_sentinel [of 2 opaqueWhite "(16, 16)" "(2, 2)" "(1/2, 1/2)"
        opaqueWhite 1 1 opaqueWhite "(1, 1)"]
    by blast
qed

section \<open>Character matcher: glyph selection\<close>

lemma paletteScan_spec:
  "paletteScan t glyph err u (i0, g0) = (i, g) \<Longrightarrow>
     i \<le> i0
     \<and> (\<forall>w. u \<le> w \<and> w < 1024 \<and> real w < t \<longrightarrow> i \<le> err w)
     \<and> ((i, g) = (i0, g0)
        \<or> (\<exists>k. u \<le> k \<and> k < 1024 \<and> real k < t \<and> i = err k \<and> g = glyph k \<and> i < i0
               \<and> (\<forall>w. u \<le> w \<and> w < k \<longrightarrow> i < err w)))"
proof (induction t glyph err u "(i0, g0)" arbitrary: i0 g0 rule: paletteScan.induct)
  case (1 t glyph err u)
  show ?case
  proof (cases "u < 1024 \<and> real u < t")
    case False
    with "1.prems" have r: "(i, g) = (i0, g0)"
      by (simp add: paletteScan.simps [of t glyph err u] not_less split: if_splits)
    have "\<forall>w. u \<le> w \<and> w < 1024 \<and> real w < t \<longrightarrow> i \<le> err w"
    proof (intro allI impI)
      fix w assume w: "u \<le> w \<and> w < 1024 \<and> real w < t"
      then have "u < 1024" and "real u < t" by auto
      with False show "i \<le> err w" by simp
    qed
    with r show ?thesis by simp
  next
    case True
    define i1 where "i1 = (if err u < i0 then err u else i0)"
    define g1 where "g1 = (if err u < i0 then glyph u else g0)"
    have ig1: "(if err u < fst (i0, g0) then (err u, glyph u) else (i0, g0)) = (i1, g1)"
      by (simp add: i1_def g1_def)
    have ig1': "(if err u < i0 then (err u, glyph u) else (i0, g0)) = (i1, g1)"
      by (simp add: i1_def g1_def)
    from True "1.prems" have s: "paletteScan t glyph err (Suc u) (i1, g1) = (i, g)"
      by (simp add: paletteScan.simps [of t glyph err u] ig1' not_le)
    from True have c1: "u < 1024" and c2: "\<not> t \<le> real u" by simp_all
    note ih = "1.hyps" [OF c1 c2 ig1 s]
    from ih have le1: "i \<le> i1"
      and all1: "\<forall>w. Suc u \<le> w \<and> w < 1024 \<and> real w < t \<longrightarrow> i \<le> err w"
      and alt1: "(i, g) = (i1, g1)
        \<or> (\<exists>k. Suc u \<le> k \<and> k < 1024 \<and> real k < t \<and> i = err k \<and> g = glyph k \<and> i < i1
               \<and> (\<forall>w. Suc u \<le> w \<and> w < k \<longrightarrow> i < err w))"
      by blast+
    have i1a: "i1 \<le> i0" and i1b: "i1 \<le> err u" by (simp_all add: i1_def)
    have A: "i \<le> i0" using le1 i1a by simp
    have B: "\<forall>w. u \<le> w \<and> w < 1024 \<and> real w < t \<longrightarrow> i \<le> err w"
    proof (intro allI impI)
      fix w assume w: "u \<le> w \<and> w < 1024 \<and> real w < t"
      show "i \<le> err w"
      proof (cases "w = u")
        case True
        with le1 i1b show ?thesis by simp
      next
        case False
        with w have "Suc u \<le> w" by simp
        with all1 w show ?thesis by blast
      qed
    qed
    from alt1 have C: "(i, g) = (i0, g0)
        \<or> (\<exists>k. u \<le> k \<and> k < 1024 \<and> real k < t \<and> i = err k \<and> g = glyph k \<and> i < i0
               \<and> (\<forall>w. u \<le> w \<and> w < k \<longrightarrow> i < err w))"
    proof
      assume e: "(i, g) = (i1, g1)"
      show ?thesis
      proof (cases "err u < i0")
        case True
        with e have "i = err u" and "g = glyph u" and "i < i0"
          by (simp_all add: i1_def g1_def)
        with \<open>u < 1024 \<and> real u < t\<close>
        have "u \<le> u \<and> u < 1024 \<and> real u < t \<and> i = err u \<and> g = glyph u \<and> i < i0
               \<and> (\<forall>w. u \<le> w \<and> w < u \<longrightarrow> i < err w)"
          by simp
        then show ?thesis by blast
      next
        case False
        with e show ?thesis by (simp add: i1_def g1_def)
      qed
    next
      assume "\<exists>k. Suc u \<le> k \<and> k < 1024 \<and> real k < t \<and> i = err k \<and> g = glyph k \<and> i < i1
               \<and> (\<forall>w. Suc u \<le> w \<and> w < k \<longrightarrow> i < err w)"
      then obtain k where k: "Suc u \<le> k" "k < 1024" "real k < t" "i = err k" "g = glyph k"
        "i < i1" "\<forall>w. Suc u \<le> w \<and> w < k \<longrightarrow> i < err w"
        by blast
      have "\<forall>w. u \<le> w \<and> w < k \<longrightarrow> i < err w"
      proof (intro allI impI)
        fix w assume w: "u \<le> w \<and> w < k"
        show "i < err w"
        proof (cases "w = u")
          case True
          with k(6) i1b show ?thesis by simp
        next
          case False
          with w have "Suc u \<le> w \<and> w < k" by simp
          with k(7) show ?thesis by blast
        qed
      qed
      moreover have "u \<le> k" using k(1) by simp
      moreover have "i < i0" using k(6) i1a by simp
      ultimately show ?thesis using k by blast
    qed
    from A B C show ?thesis by blast
  qed
qed

lemma paletteScan_result:
  assumes "0 < t" and "\<forall>w. w < 1024 \<and> real w < t \<longrightarrow> err w < 100000000000000000000"
  shows "\<exists>k. k < 1024 \<and> real k < t
           \<and> paletteScan t glyph err 0 (100000000000000000000, 0) = (err k, glyph k)
           \<and> (\<forall>w. w < 1024 \<and> real w < t \<longrightarrow> err k \<le> err w)
           \<and> (\<forall>w<k. err k < err w)"
proof -
  obtain i g where r: "paletteScan t glyph err 0 (100000000000000000000, 0) = (i, g)"
    by (cases "paletteScan t glyph err 0 (100000000000000000000, 0)")
  note sp = paletteScan_spec [OF r]
  from sp have all: "\<forall>w. w < 1024 \<and> real w < t \<longrightarrow> i \<le> err w" by simp
  from assms have "err 0 < 100000000000000000000" by simp
  moreover from all assms(1) have "i \<le> err 0" by simp
  ultimately have "i \<noteq> 100000000000000000000" by simp
  with sp obtain k where k: "k < 1024" "real k < t" "i = err k" "g = glyph k"
    "\<forall>w. w < k \<longrightarrow> i < err w"
    by auto
  with r all show ?thesis by blast
qed

lemma sum_list_le_length:
  "\<forall>x \<in> set xs. h x \<le> (1::real) \<Longrightarrow> sum_list (map h xs) \<le> real (length xs)"
  by (induction xs) auto

lemma square_diff_le_1:
  fixes a b :: real
  assumes "0 \<le> a" "a \<le> 1" "0 \<le> b" "b \<le> 1"
  shows "(a - b) * (a - b) \<le> 1"
proof -
  from assms have "\<bar>a - b\<bar> \<le> 1" by simp
  then have "(a - b)\<^sup>2 \<le> 1" by (simp add: abs_square_le_1)
  then show ?thesis by (simp add: power2_eq_square)
qed

lemma glyphSSD_le:
  assumes "\<And>c. 0 \<le> vx (sk c) \<and> vx (sk c) \<le> 1" and "\<And>c. 0 \<le> vx (ct c) \<and> vx (ct c) \<le> 1"
  shows "glyphSSD t ct cc cr sk e v m \<le> real t * real t"
proof -
  have "glyphSSD t ct cc cr sk e v m
          = sum_list (map (\<lambda>uf. (vx (sk (offsetCoord e (subPos t uf) v))
                 - vx (ct (offsetCoord ((m - cc * floorf (m / cc)) / cc, floorf (m / cc) / cr)
                                   (subPos t uf) (1 / cc, 1 / cr))))
               * (vx (sk (offsetCoord e (subPos t uf) v))
                 - vx (ct (offsetCoord ((m - cc * floorf (m / cc)) / cc, floorf (m / cc) / cr)
                                   (subPos t uf) (1 / cc, 1 / cr))))) (subSamples t t))"
    unfolding glyphSSD_def Let_def texture2D_def by (simp add: fold_add_sum_list)
  also have "\<dots> \<le> real (length (subSamples t t))"
    by (rule sum_list_le_length) (simp add: square_diff_le_1 assms)
  also have "\<dots> = real t * real t"
    by (simp add: subSamples_def length_product)
  finally show ?thesis .
qed

lemma glyphError_lt_initial:
  assumes "0 < t" and "\<And>c. 0 \<le> vx (sk c) \<and> vx (sk c) \<le> 1"
    and "\<And>c. 0 \<le> vx (ct c) \<and> vx (ct c) \<le> 1"
  shows "glyphError t ct cc cr sk e v m < 100000000000000000000"
proof -
  from assms(1) have p: "0 < real t * real t" by simp
  have "glyphSSD t ct cc cr sk e v m \<le> real t * real t"
    by (rule glyphSSD_le) (simp_all add: assms)
  with p have "glyphError t ct cc cr sk e v m \<le> 1"
    by (simp add: glyphError_def)
  then show ?thesis by simp
qed

lemma glyphError_le_iff:
  "0 < t \<Longrightarrow>
     glyphError t ct cc cr sk e v m \<le> glyphError t ct cc cr sk e v m'
       \<longleftrightarrow> glyphSSD t ct cc cr sk e v m \<le> glyphSSD t ct cc cr sk e v m'"
  by (simp add: glyphError_def divide_le_cancel)

lemma glyphError_less_iff:
  "0 < t \<Longrightarrow>
     glyphError t ct cc cr sk e v m < glyphError t ct cc cr sk e v m'
       \<longleftrightarrow> glyphSSD t ct cc cr sk e v m < glyphSSD t ct cc cr sk e v m'"
  by (simp add: glyphError_def divide_less_cancel)

lemma characterSelection_scan:
  assumes "\<not> cellTransparent t sk (cellOrigin gpd gcl fc) (cellExtent gpd gcl fc)"
  shows "characterSelectionShader t ct cc cr sk gpd gcl pal ps fc
           = encodeGlyph (snd (paletteScan (fst ps) (paletteGlyph pal ps)
               (\<lambda>u. glyphError t ct cc cr sk (cellOrigin gpd gcl fc) (cellExtent gpd gcl fc)
                       (paletteGlyph pal ps u))
               0 (100000000000000000000, 0)))"
  using assms by (simp add: characterSelectionShader_def Let_def split_beta)

text \<open>
  C1 (amended). For a cell that is not fully transparent, a non-empty palette and textures
  with values in [0,1], the character matcher outputs the glyph of a palette entry \<open>k\<close> among
  the entries that the palette loop scans (the first 1024): its sum of squared differences
  against the cell's mask sub-samples is minimal among the scanned entries, and strictly
  smaller than that of every earlier entry, so that a scanned glyph of lower error is chosen
  whatever its position and of two scanned glyphs of equal error the earlier one wins.
\<close>

theorem characterSelection_minimal_ssd:
  assumes nt: "\<exists>u<t. \<exists>f<t. vw (texture2D sk (offsetCoord (cellOrigin gpd gcl fc) (subPos t (u, f))
                                     (cellExtent gpd gcl fc))) > 0"
    and ps: "0 < fst ps"
    and sk: "\<And>c. 0 \<le> vx (sk c) \<and> vx (sk c) \<le> 1"
    and ct: "\<And>c. 0 \<le> vx (ct c) \<and> vx (ct c) \<le> 1"
  shows "\<exists>k. k < 1024 \<and> real k < fst ps
           \<and> characterSelectionShader t ct cc cr sk gpd gcl pal ps fc
               = encodeGlyph (paletteGlyph pal ps k)
           \<and> (\<forall>w. w < 1024 \<and> real w < fst ps \<longrightarrow>
                 glyphSSD t ct cc cr sk (cellOrigin gpd gcl fc) (cellExtent gpd gcl fc)
                   (paletteGlyph pal ps k)
                 \<le> glyphSSD t ct cc cr sk (cellOrigin gpd gcl fc) (cellExtent gpd gcl fc)
                     (paletteGlyph pal ps w))
           \<and> (\<forall>w<k.
                 glyphSSD t ct cc cr sk (cellOrigin gpd gcl fc) (cellExtent gpd gcl fc)
                   (paletteGlyph pal ps k)
                 < glyphSSD t ct cc cr sk (cellOrigin gpd gcl fc) (cellExtent gpd gcl fc)
                     (paletteGlyph pal ps w))"
proof -
  let ?e = "cellOrigin gpd gcl fc" and ?v = "cellExtent gpd gcl fc"
  let ?err = "\<lambda>u. glyphError t ct cc cr sk ?e ?v (paletteGlyph pal ps u)"
  from nt have t: "0 < t" by auto
  from nt have ntr: "\<not> cellTransparent t sk ?e ?v"
    by (auto simp: cellTransparent_iff)
  have b: "\<forall>w. w < 1024 \<and> real w < fst ps \<longrightarrow> ?err w < 100000000000000000000"
  proof (intro allI impI)
    fix w
    show "?err w < 100000000000000000000"
      by (rule glyphError_lt_initial) (simp_all add: t sk ct)
  qed
  from paletteScan_result [OF ps b, of "paletteGlyph pal ps"]
  obtain k where k: "k < 1024" "real k < fst ps"
    and r: "paletteScan (fst ps) (paletteGlyph pal ps) ?err 0 (100000000000000000000, 0)
              = (?err k, paletteGlyph pal ps k)"
    and mn: "\<forall>w. w < 1024 \<and> real w < fst ps \<longrightarrow> ?err k \<le> ?err w"
    and fs: "\<forall>w<k. ?err k < ?err w"
    by blast
  have o: "characterSelectionShader t ct cc cr sk gpd gcl pal ps fc
             = encodeGlyph (paletteGlyph pal ps k)"
    by (simp add: characterSelection_scan [OF ntr] r)
  from mn have mn': "\<forall>w. w < 1024 \<and> real w < fst ps \<longrightarrow>
                 glyphSSD t ct cc cr sk ?e ?v (paletteGlyph pal ps k)
                 \<le> glyphSSD t ct cc cr sk ?e ?v (paletteGlyph pal ps w)"
    by (simp add: glyphError_le_iff [OF t])
  from fs have fs': "\<forall>w<k.
                 glyphSSD t ct cc cr sk ?e ?v (paletteGlyph pal ps k)
                 < glyphSSD t ct cc cr sk ?e ?v (paletteGlyph pal ps w)"
    by (simp add: glyphError_less_iff [OF t])
  from k o mn' fs' show ?thesis by blast
qed

lemma unit_cell_origin: "cellOrigin (1, 1) (1, 1) (1/2, 1/2) = (0, 0)"
  by (simp add: cellOrigin_def floorf_def)

lemma unit_cell_extent: "cellExtent (1, 1) (1, 1) (1/2, 1/2) = (1, 1)"
  by (simp add: cellExtent_def cellOrigin_def floorf_def)

lemma unit_ssd_blank: "glyphSSD 1 twoToneImage 2 1 opaqueWhite (0, 0) (1, 1) 0 = 1"
  by (simp add: glyphSSD_def subSamples_def subPos_def offsetCoord_def texture2D_def
      twoToneImage_def opaqueWhite_def floorf_def Let_def)

lemma unit_ssd_solid: "glyphSSD 1 twoToneImage 2 1 opaqueWhite (0, 0) (1, 1) 1 = 0"
  by (simp add: glyphSSD_def subSamples_def subPos_def offsetCoord_def texture2D_def
      twoToneImage_def opaqueWhite_def floorf_def Let_def)

lemma unit_cell_opaque:
  "\<exists>u<1. \<exists>f<1. vw (texture2D opaqueWhite (offsetCoord (cellOrigin (1, 1) (1, 1) (1/2, 1/2))
       (subPos 1 (u, f)) (cellExtent (1, 1) (1, 1) (1/2, 1/2)))) > 0"
  by (simp add: texture2D_def opaqueWhite_def)

lemma twoEntryPalette_glyphs:
  "paletteGlyph twoEntryPalette (2, 1) 0 = 0" "paletteGlyph twoEntryPalette (2, 1) 1 = 1"
  by (simp_all add: paletteGlyph_def twoEntryPalette_def texture2D_def Let_def)

lemma examplePalette_glyphs:
  "w < 1024 \<Longrightarrow> paletteGlyph examplePalette (1025, 1) w = 0"
  "paletteGlyph examplePalette (1025, 1) 1024 = 1"
  by (simp_all add: paletteGlyph_def examplePalette_def texture2D_def Let_def)

text \<open>
  A one-sample cell of an all-white mask and the palette (blank, solid): the solid glyph has
  error 0 against the blank one's 1 and is chosen, although it comes second.
\<close>

theorem characterSelection_minimal_ssd_witness:
  "(\<exists>u<1. \<exists>f<1. vw (texture2D opaqueWhite (offsetCoord (cellOrigin (1, 1) (1, 1) (1/2, 1/2))
       (subPos 1 (u, f)) (cellExtent (1, 1) (1, 1) (1/2, 1/2)))) > 0)
   \<and> (0::real) < fst (2::real, 1::real)
   \<and> glyphSSD 1 twoToneImage 2 1 opaqueWhite (cellOrigin (1, 1) (1, 1) (1/2, 1/2))
         (cellExtent (1, 1) (1, 1) (1/2, 1/2)) (paletteGlyph twoEntryPalette (2, 1) 0) = 1
   \<and> glyphSSD 1 twoToneImage 2 1 opaqueWhite (cellOrigin (1, 1) (1, 1) (1/2, 1/2))
         (cellExtent (1, 1) (1, 1) (1/2, 1/2)) (paletteGlyph twoEntryPalette (2, 1) 1) = 0
   \<and> characterSelectionShader 1 twoToneImage 2 1 opaqueWhite (1, 1) (1, 1) twoEntryPalette (2, 1)
         (1/2, 1/2) = encodeGlyph 1"
proof -
  have p: "(0::real) < fst (2::real, 1::real)" by simp
  have sk: "\<And>c. 0 \<le> vx (opaqueWhite c) \<and> vx (opaqueWhite c) \<le> 1"
    by (simp add: opaqueWhite_def)
  have ct: "\<And>c. 0 \<le> vx (twoToneImage c) \<and> vx (twoToneImage c) \<le> 1"
    by (simp add: twoToneImage_def)
  have s0: "glyphSSD 1 twoToneImage 2 1 opaqueWhite (cellOrigin (1, 1) (1, 1) (1/2, 1/2))
         (cellExtent (1, 1) (1, 1) (1/2, 1/2)) (paletteGlyph twoEntryPalette (2, 1) 0) = 1"
    by (simp only: unit_cell_origin unit_cell_extent twoEntryPalette_glyphs unit_ssd_blank)
  have s1: "glyphSSD 1 twoToneImage 2 1 opaqueWhite (cellOrigin (1, 1) (1, 1) (1/2, 1/2))
         (cellExtent (1, 1) (1, 1) (1/2, 1/2)) (paletteGlyph twoEntryPalette (2, 1) 1) = 0"
    by (simp only: unit_cell_origin unit_cell_extent twoEntryPalette_glyphs unit_ssd_solid)
  from characterSelection_minimal_ssd [where t = 1 and sk = opaqueWhite and ct = twoToneImage
      and gpd = "(1, 1)" and gcl = "(1, 1)" and fc = "(1/2, 1/2)" and ps = "(2, 1)"
      and cc = 2 and cr = 1 and pal = twoEntryPalette, OF unit_cell_opaque p sk ct]
  obtain k where k: "real k < fst (2::real, 1::real)"
    and o: "characterSelectionShader 1 twoToneImage 2 1 opaqueWhite (1, 1) (1, 1) twoEntryPalette (2, 1)
              (1/2, 1/2) = encodeGlyph (paletteGlyph twoEntryPalette (2, 1) k)"
    and mn: "\<forall>w. w < 1024 \<and> real w < fst (2::real, 1::real) \<longrightarrow>
               glyphSSD 1 twoToneImage 2 1 opaqueWhite (cellOrigin (1, 1) (1, 1) (1/2, 1/2))
                 (cellExtent (1, 1) (1, 1) (1/2, 1/2)) (paletteGlyph twoEntryPalette (2, 1) k)
               \<le> glyphSSD 1 twoToneImage 2 1 opaqueWhite (cellOrigin (1, 1) (1, 1) (1/2, 1/2))
                 (cellExtent (1, 1) (1, 1) (1/2, 1/2)) (paletteGlyph twoEntryPalette (2, 1) w)"
    by blast
  from k have "k = 0 \<or> k = 1" by auto
  moreover have "k \<noteq> 0"
  proof
    assume "k = 0"
    with mn have "glyphSSD 1 twoToneImage 2 1 opaqueWhite (cellOrigin (1, 1) (1, 1) (1/2, 1/2))
                 (cellExtent (1, 1) (1, 1) (1/2, 1/2)) (paletteGlyph twoEntryPalette (2, 1) 0)
               \<le> glyphSSD 1 twoToneImage 2 1 opaqueWhite (cellOrigin (1, 1) (1, 1) (1/2, 1/2))
                 (cellExtent (1, 1) (1, 1) (1/2, 1/2)) (paletteGlyph twoEntryPalette (2, 1) 1)"
      by simp
    with s0 s1 show False by simp
  qed
  ultimately have "k = 1" by simp
  with o have "characterSelectionShader 1 twoToneImage 2 1 opaqueWhite (1, 1) (1, 1) twoEntryPalette
                 (2, 1) (1/2, 1/2) = encodeGlyph 1"
    by (simp add: twoEntryPalette_glyphs del: One_nat_def)
  with unit_cell_opaque p s0 s1 show ?thesis by blast
qed

text \<open>
  C1 as stated fails beyond the loop bound: with 1025 palette entries the solid glyph at
  position 1024 has error 0 against the mask, every other entry has error 1, and the shader
  outputs glyph 0.
\<close>

theorem characterSelection_palette_cap_counterexample:
  "\<not> cellTransparent 1 opaqueWhite (cellOrigin (1, 1) (1, 1) (1/2, 1/2))
        (cellExtent (1, 1) (1, 1) (1/2, 1/2))
   \<and> glyphSSD 1 twoToneImage 2 1 opaqueWhite (cellOrigin (1, 1) (1, 1) (1/2, 1/2))
         (cellExtent (1, 1) (1, 1) (1/2, 1/2)) (paletteGlyph examplePalette (1025, 1) 1024) = 0
   \<and> glyphSSD 1 twoToneImage 2 1 opaqueWhite (cellOrigin (1, 1) (1, 1) (1/2, 1/2))
         (cellExtent (1, 1) (1, 1) (1/2, 1/2)) (paletteGlyph examplePalette (1025, 1) 0) = 1
   \<and> characterSelectionShader 1 twoToneImage 2 1 opaqueWhite (1, 1) (1, 1) examplePalette (1025, 1)
         (1/2, 1/2) = encodeGlyph (paletteGlyph examplePalette (1025, 1) 0)
   \<and> encodeGlyph (paletteGlyph examplePalette (1025, 1) 0) = Vec4 0 0 0 1
   \<and> encodeGlyph (paletteGlyph examplePalette (1025, 1) 1024) = Vec4 (1 / 255) 0 0 1"
proof -
  let ?e = "cellOrigin (1, 1) (1, 1) (1/2, 1/2)" and ?v = "cellExtent (1, 1) (1, 1) (1/2, 1/2)"
  let ?glyph = "paletteGlyph examplePalette (1025, 1)"
  let ?err = "\<lambda>u. glyphError 1 twoToneImage 2 1 opaqueWhite ?e ?v (?glyph u)"
  have nt: "\<not> cellTransparent 1 opaqueWhite ?e ?v"
    using unit_cell_opaque by (auto simp: cellTransparent_iff)
  have s1024: "glyphSSD 1 twoToneImage 2 1 opaqueWhite ?e ?v (?glyph 1024) = 0"
    by (simp only: unit_cell_origin unit_cell_extent examplePalette_glyphs unit_ssd_solid)
  have s0: "glyphSSD 1 twoToneImage 2 1 opaqueWhite ?e ?v (?glyph 0) = 1"
    by (simp only: unit_cell_origin unit_cell_extent examplePalette_glyphs unit_ssd_blank
        zero_less_numeral)
  have b: "\<forall>w. w < 1024 \<and> real w < 1025 \<longrightarrow> ?err w < 100000000000000000000"
    by (simp add: glyphError_def unit_cell_origin unit_cell_extent examplePalette_glyphs
        unit_ssd_blank del: One_nat_def)
  from paletteScan_result [of 1025 ?err ?glyph, OF _ b]
  obtain k where k: "k < 1024"
    and r: "paletteScan 1025 ?glyph ?err 0 (100000000000000000000, 0) = (?err k, ?glyph k)"
    by auto
  from k have "?glyph k = 0" by (simp add: examplePalette_glyphs)
  with r have "snd (paletteScan 1025 ?glyph ?err 0 (100000000000000000000, 0)) = ?glyph 0"
    by (simp add: examplePalette_glyphs del: One_nat_def)
  then have o: "characterSelectionShader 1 twoToneImage 2 1 opaqueWhite (1, 1) (1, 1) examplePalette
                  (1025, 1) (1/2, 1/2) = encodeGlyph (?glyph 0)"
    by (simp add: characterSelection_scan [OF nt] del: One_nat_def)
  have e0: "encodeGlyph (?glyph 0) = Vec4 0 0 0 1"
    by (simp add: examplePalette_glyphs encodeGlyph_def modf_def floorf_def Let_def)
  have e1: "encodeGlyph (?glyph 1024) = Vec4 (1 / 255) 0 0 1"
    by (simp add: examplePalette_glyphs encodeGlyph_def modf_def floorf_def Let_def)
  from nt s1024 s0 o e0 e1 show ?thesis by blast
qed

section \<open>Render lifecycle\<close>

text \<open>
  C7. \<^verbatim>\<open>resizeFramebuffers()\<close> leaves the four shader fields as they are; the inherited
  fields are those the base class's method yields; the brightness-sample buffer has the
  grid's columns by rows and the brightness-split buffer the capture buffer's width by height.
\<close>

theorem resizeFramebuffers_frame:
  "characterSelectionShaderField (resizeFramebuffers super r) = characterSelectionShaderField r
   \<and> brightnessSampleShaderField (resizeFramebuffers super r) = brightnessSampleShaderField r
   \<and> colorSampleShaderField (resizeFramebuffers super r) = colorSampleShaderField r
   \<and> brightnessSplitShaderField (resizeFramebuffers super r) = brightnessSplitShaderField r
   \<and> host (resizeFramebuffers super r) = super (host r)
   \<and> fb_width (brightnessSampleFramebuffer (resizeFramebuffers super r))
       = cols (grid (host (resizeFramebuffers super r)))
   \<and> fb_height (brightnessSampleFramebuffer (resizeFramebuffers super r))
       = rows (grid (host (resizeFramebuffers super r)))
   \<and> fb_width (brightnessSplitFramebuffer (resizeFramebuffers super r))
       = fb_width (captureFramebuffer (host (resizeFramebuffers super r)))
   \<and> fb_height (brightnessSplitFramebuffer (resizeFramebuffers super r))
       = fb_height (captureFramebuffer (host (resizeFramebuffers super r)))"
  by (simp add: resizeFramebuffers_def resize_def Let_def)

lemma createGeneratedShaders_eq:
  "createGeneratedShaders h =
     ((\<lparr>shader_id = shadersCreated (p5 h), vert_src = vertexShader,
         frag_src = generateCharacterSelectionShader (fontSize (fontManager h))\<rparr>,
       \<lparr>shader_id = Suc (shadersCreated (p5 h)), vert_src = vertexShader,
         frag_src = generateBrightnessSampleShader (cellHeight (grid h)) (cellWidth (grid h))\<rparr>,
       \<lparr>shader_id = Suc (Suc (shadersCreated (p5 h))), vert_src = vertexShader,
         frag_src = generateColorSampleShader 16 (cellHeight (grid h)) (cellWidth (grid h))\<rparr>),
      h\<lparr>p5 := (p5 h)\<lparr>shadersCreated := Suc (Suc (Suc (shadersCreated (p5 h))))\<rparr>\<rparr>)"
  by (simp add: createGeneratedShaders_def createShader_def Let_def)

text \<open>
  C8 (amended). \<^verbatim>\<open>resetShaders()\<close> compiles the three generator-derived programs
  (character selection, brightness sample, colour sample) anew, from the generators applied to
  the current font size and cell height and width, and leaves the brightness-split program
  as it is; the constructor compiles the same three from the generators and the
  brightness-split program from its fixed source.
\<close>

theorem shaders_compiled_from_generators:
  "frag_src (characterSelectionShaderField (resetShaders r))
     = generateCharacterSelectionShader (fontSize (fontManager (host (resetShaders r))))
   \<and> frag_src (brightnessSampleShaderField (resetShaders r))
     = generateBrightnessSampleShader (cellHeight (grid (host (resetShaders r))))
         (cellWidth (grid (host (resetShaders r))))
   \<and> frag_src (colorSampleShaderField (resetShaders r))
     = generateColorSampleShader 16 (cellHeight (grid (host (resetShaders r))))
         (cellWidth (grid (host (resetShaders r))))
   \<and> shadersCreated (p5 (host r)) \<le> shader_id (characterSelectionShaderField (resetShaders r))
   \<and> shadersCreated (p5 (host r)) \<le> shader_id (brightnessSampleShaderField (resetShaders r))
   \<and> shadersCreated (p5 (host r)) \<le> shader_id (colorSampleShaderField (resetShaders r))
   \<and> brightnessSplitShaderField (resetShaders r) = brightnessSplitShaderField r
   \<and> frag_src (characterSelectionShaderField (construct super p cf g fm opts))
     = generateCharacterSelectionShader (fontSize (fontManager (host (construct super p cf g fm opts))))
   \<and> frag_src (brightnessSampleShaderField (construct super p cf g fm opts))
     = generateBrightnessSampleShader (cellHeight (grid (host (construct super p cf g fm opts))))
         (cellWidth (grid (host (construct super p cf g fm opts))))
   \<and> frag_src (colorSampleShaderField (construct super p cf g fm opts))
     = generateColorSampleShader 16 (cellHeight (grid (host (construct super p cf g fm opts))))
         (cellWidth (grid (host (construct super p cf g fm opts))))
   \<and> frag_src (brightnessSplitShaderField (construct super p cf g fm opts)) = brightnessSplitSource"
  by (simp add: resetShaders_def construct_def createGeneratedShaders_eq createShader_def Let_def)

text \<open>
  C8 as stated fails: after \<^verbatim>\<open>resetShaders()\<close> the brightness-split program is the one
  compiled before the call, and its source is no generator's output.
\<close>

theorem resetShaders_split_counterexample:
  "shader_id (brightnessSplitShaderField (resetShaders exampleRenderer))
     < shadersCreated (p5 (host exampleRenderer))
   \<and> frag_src (brightnessSplitShaderField (resetShaders exampleRenderer)) = BrightnessSplitFrag
   \<and> brightnessSplitShaderField (resetShaders exampleRenderer)
       = brightnessSplitShaderField exampleRenderer"
  by (simp add: exampleRenderer_def exampleSuper_def resetShaders_def construct_def
      createGeneratedShaders_eq createShader_def Let_def brightnessSplitSource_def)

section \<open>Option merging\<close>

lemma map_of_setProp: "map_of (setProp k v ps) = (map_of ps)(k \<mapsto> v)"
  by (induction ps) (auto simp: fun_eq_iff)

lemma map_of_fold_setProp:
  "map_of (fold (\<lambda>(k, v) acc. setProp k v acc) src acc) = map_of acc ++ map_of (rev src)"
proof (induction src arbitrary: acc)
  case Nil
  then show ?case by simp
next
  case (Cons a src)
  obtain k v where a: "a = (k, v)" by (cases a)
  show ?case
    by (simp add: a Cons.IH map_of_setProp fun_eq_iff map_add_def split: option.splits)
qed

lemma map_of_rev_distinct: "distinct (map fst xs) \<Longrightarrow> map_of (rev xs) = map_of xs"
proof (induction xs)
  case Nil
  then show ?case by simp
next
  case (Cons a xs)
  obtain k v where a: "a = (k, v)" by (cases a)
  from Cons.prems a have k: "map_of xs k = None"
    by (simp add: map_of_eq_None_iff)
  from Cons.prems have ih: "map_of (rev xs) = map_of xs"
    by (simp add: Cons.IH)
  show ?case
    using k by (auto simp: a ih fun_eq_iff map_add_def split: option.splits)
qed

lemma map_of_objectSpread2:
  "map_of (objectSpread [a, b]) = map_of (rev a) ++ map_of (rev b)"
  by (simp add: objectSpread_def map_of_fold_setProp)

lemma mergedOptions_None: "mergedOptions None = ACCURATE_DEFAULT_OPTIONS"
  by (simp add: mergedOptions_def objectSpread_def ACCURATE_DEFAULT_OPTIONS_def)

lemma mergedOptions_defaults: "mergedOptions (Some ACCURATE_DEFAULT_OPTIONS) = ACCURATE_DEFAULT_OPTIONS"
  by (simp add: mergedOptions_def objectSpread_def ACCURATE_DEFAULT_OPTIONS_def)

text \<open>
  C10. For an options object (its keys distinct) the merged options hold, for every key absent
  from the argument, the default's value, and for every key present the provided value;
  with no options argument, also through the plugin's \<^verbatim>\<open>create\<close>, they are exactly the
  defaults.
\<close>

theorem mergedOptions_override:
  assumes "distinct (map fst opts)"
  shows "(k \<notin> fst ` set opts \<longrightarrow>
            map_of (mergedOptions (Some opts)) k = map_of ACCURATE_DEFAULT_OPTIONS k)
       \<and> (\<forall>v. (k, v) \<in> set opts \<longrightarrow> map_of (mergedOptions (Some opts)) k = Some v)
       \<and> mergedOptions None = ACCURATE_DEFAULT_OPTIONS
       \<and> mergedOptions (createOptionsArg None) = ACCURATE_DEFAULT_OPTIONS"
proof -
  have d: "distinct (map fst ACCURATE_DEFAULT_OPTIONS)"
    by (simp add: ACCURATE_DEFAULT_OPTIONS_def)
  have m: "map_of (mergedOptions (Some opts)) = map_of ACCURATE_DEFAULT_OPTIONS ++ map_of opts"
    using assms d by (simp add: mergedOptions_def map_of_objectSpread2 map_of_rev_distinct)
  have a: "k \<notin> fst ` set opts \<longrightarrow>
            map_of (mergedOptions (Some opts)) k = map_of ACCURATE_DEFAULT_OPTIONS k"
    by (simp add: m map_add_def map_of_eq_None_iff split: option.splits)
       (metis map_of_eq_None_iff option.distinct(1))
  have b: "\<forall>v. (k, v) \<in> set opts \<longrightarrow> map_of (mergedOptions (Some opts)) k = Some v"
    using assms by (simp add: m map_add_def)
  show ?thesis
    using a b by (simp add: mergedOptions_None mergedOptions_defaults createOptionsArg_def)
qed

text \<open>Two options provided: \<open>enabled\<close> comes from the defaults, \<open>characters\<close> from the argument.\<close>

theorem mergedOptions_override_witness:
  "distinct (map fst [(''characters'', JSString ''#@''), (''invertMode'', JSBool True)])
   \<and> map_of (mergedOptions (Some [(''characters'', JSString ''#@''), (''invertMode'', JSBool True)]))
         ''enabled'' = Some (JSBool True)
   \<and> map_of (mergedOptions (Some [(''characters'', JSString ''#@''), (''invertMode'', JSBool True)]))
         ''characters'' = Some (JSString ''#@'')"
proof -
  have d: "distinct (map fst [(''characters'', JSString ''#@''), (''invertMode'', JSBool True)])"
    by simp
  show ?thesis
    using d mergedOptions_override [OF d, of "''enabled''"]
      mergedOptions_override [OF d, of "''characters''"]
    by (simp add: ACCURATE_DEFAULT_OPTIONS_def)
qed

section \<open>Base class lookup\<close>

lemma str_includes_iff: "str_includes s sub \<longleftrightarrow> (\<exists>a b. s = a @ sub @ b)"
proof (induction s)
  case Nil
  then show ?case by auto
next
  case (Cons c cs)
  have p: "take (length sub) (c # cs) = sub \<longleftrightarrow> (\<exists>b. c # cs = sub @ b)"
    by (metis append_eq_conv_conj append_take_drop_id)
  show ?case
  proof
    assume "str_includes (c # cs) sub"
    then consider "take (length sub) (c # cs) = sub" | "str_includes cs sub" by auto
    then show "\<exists>a b. c # cs = a @ sub @ b"
    proof cases
      case 1
      with p obtain b where "c # cs = sub @ b" by blast
      then have "c # cs = [] @ sub @ b" by simp
      then show ?thesis by blast
    next
      case 2
      with Cons.IH obtain a b where "cs = a @ sub @ b" by blast
      then have "c # cs = (c # a) @ sub @ b" by simp
      then show ?thesis by blast
    qed
  next
    assume "\<exists>a b. c # cs = a @ sub @ b"
    then obtain a b where ab: "c # cs = a @ sub @ b" by blast
    show "str_includes (c # cs) sub"
    proof (cases a)
      case Nil
      with ab have "c # cs = sub @ b" by simp
      with p have "take (length sub) (c # cs) = sub" by blast
      then show ?thesis by simp
    next
      case (Cons x a')
      with ab have "cs = a' @ sub @ b" by simp
      with Cons.IH show ?thesis by auto
    qed
  qed
qed

lemma join_contains: "g \<in> set gs \<Longrightarrow> \<exists>a b. join sep gs = a @ g @ b"
proof (induction sep gs rule: join.induct)
  case (1 sep)
  then show ?case by simp
next
  case (2 sep a)
  then have "join sep [a] = [] @ g @ []" by simp
  then show ?case by blast
next
  case (3 sep a b bs)
  show ?case
  proof (cases "g = a")
    case True
    then have "join sep (a # b # bs) = [] @ g @ (sep @ join sep (b # bs))" by simp
    then show ?thesis by blast
  next
    case False
    with 3 obtain x y where "join sep (b # bs) = x @ g @ y" by auto
    then have "join sep (a # b # bs) = (a @ sep @ x) @ g @ y" by simp
    then show ?thesis by blast
  qed
qed

lemma notFoundMessage_names_symbol: "str_includes (notFoundMessage gs) baseClassName"
proof -
  have "notFoundMessage gs = ''`'' @ baseClassName @
     (''` not found. Please ensure p5.asciify is loaded before this plugin. ''
      @ (if length gs > 0 then ''Found related globals: '' @ join '', '' gs
         else ''No related globals found.''))"
    by (simp add: notFoundMessage_def baseClassName_def)
  then show ?thesis unfolding str_includes_iff by blast
qed

lemma notFoundMessage_lists_global:
  assumes "g \<in> set gs"
  shows "str_includes (notFoundMessage gs) g"
proof -
  from assms obtain a b where j: "join '', '' gs = a @ g @ b"
    using join_contains by blast
  from assms have "length gs > 0" by auto
  then have "notFoundMessage gs =
     (''`P5AsciifyAbstractFeatureRenderer2D` not found. ''
      @ ''Please ensure p5.asciify is loaded before this plugin. ''
      @ ''Found related globals: '' @ a) @ g @ b"
    by (simp add: notFoundMessage_def j)
  then show ?thesis unfolding str_includes_iff by blast
qed

text \<open>
  C9. When neither the imported namespace nor the window global resolves the base class, the
  lookup at class definition throws an error whose message names
  \<^verbatim>\<open>P5AsciifyAbstractFeatureRenderer2D\<close> and, when there are any, lists the window keys that
  contain "asciify" or "p5" in lower case; the cache stays empty. When either strategy
  resolves the class, a class is returned and nothing is thrown.
\<close>

theorem getBaseClass_unresolved_throws:
  "(\<not> esmResolves env \<and> \<not> globalResolves env \<longrightarrow>
      getCachedBaseClass env JSNull
        = (Inl (Error (''`P5AsciifyAbstractFeatureRenderer2D` not found. ''
             @ ''Please ensure p5.asciify is loaded before this plugin. ''
             @ (if availableGlobals env = [] then ''No related globals found.''
                else ''Found related globals: '' @ join '', '' (availableGlobals env)))), JSNull)
      \<and> str_includes (notFoundMessage (availableGlobals env)) baseClassName
      \<and> (\<forall>g \<in> set (availableGlobals env). str_includes (notFoundMessage (availableGlobals env)) g))
   \<and> (esmResolves env \<or> globalResolves env \<longrightarrow>
        (\<exists>cls. fst (getCachedBaseClass env JSNull) = Inr cls))
   \<and> (g \<in> set (availableGlobals env) \<longleftrightarrow>
        (\<exists>w. window env = Some w \<and> g \<in> fst ` set w
           \<and> ((\<exists>a b. toLowerCase g = a @ ''asciify'' @ b) \<or> (\<exists>a b. toLowerCase g = a @ ''p5'' @ b))))"
proof -
  have 1: "\<not> esmResolves env \<and> \<not> globalResolves env \<longrightarrow>
      getCachedBaseClass env JSNull
        = (Inl (Error (''`P5AsciifyAbstractFeatureRenderer2D` not found. ''
             @ ''Please ensure p5.asciify is loaded before this plugin. ''
             @ (if availableGlobals env = [] then ''No related globals found.''
                else ''Found related globals: '' @ join '', '' (availableGlobals env)))), JSNull)"
    by (simp add: getCachedBaseClass_def getBaseClass_def notFoundMessage_def)
  have 2: "esmResolves env \<or> globalResolves env \<longrightarrow>
        (\<exists>cls. fst (getCachedBaseClass env JSNull) = Inr cls)"
    by (auto simp: getCachedBaseClass_def getBaseClass_def)
  have 3: "g \<in> set (availableGlobals env) \<longleftrightarrow>
        (\<exists>w. window env = Some w \<and> g \<in> fst ` set w
           \<and> ((\<exists>a b. toLowerCase g = a @ ''asciify'' @ b) \<or> (\<exists>a b. toLowerCase g = a @ ''p5'' @ b)))"
    by (cases "window env") (auto simp: availableGlobals_def str_includes_iff)
  show ?thesis
    using 1 2 3 notFoundMessage_names_symbol notFoundMessage_lists_global by blast
qed

text \<open>The first environment throws and lists \<open>p5, P5Asciifier\<close>; the second resolves.\<close>

theorem getBaseClass_unresolved_throws_witness:
  "\<not> esmResolves envGlobalsOnly \<and> \<not> globalResolves envGlobalsOnly
   \<and> getCachedBaseClass envGlobalsOnly JSNull
       = (Inl (Error (''`P5AsciifyAbstractFeatureRenderer2D` not found. ''
            @ ''Please ensure p5.asciify is loaded before this plugin. ''
            @ ''Found related globals: p5, P5Asciifier'')), JSNull)
   \<and> globalResolves envWindowExport
   \<and> (\<exists>cls. fst (getCachedBaseClass envWindowExport JSNull) = Inr cls)"
proof -
  have u: "\<not> esmResolves envGlobalsOnly \<and> \<not> globalResolves envGlobalsOnly"
    by (simp add: esmResolves_def globalResolves_def envGlobalsOnly_def objectGet_def
        baseClassName_def)
  have g: "availableGlobals envGlobalsOnly = [''p5'', ''P5Asciifier'']"
    by (simp add: availableGlobals_def envGlobalsOnly_def toLowerCase_def toLowerChar_def)
  have r: "globalResolves envWindowExport"
    by (simp add: globalResolves_def envWindowExport_def objectGet_def baseClassName_def)
  show ?thesis
    using u g r getBaseClass_unresolved_throws [of envGlobalsOnly]
      getBaseClass_unresolved_throws [of envWindowExport]
    by simp
qed

end
